theory Spec2Isabelle
  imports Complex_Main "HOL-Library.AList" "HOL-Library.Multiset"
begin

section \<open>Energy Tracker: power calculator, statistics aggregation, leaderboard query\<close>

text \<open>
  Conventions of the embedding.

  \<^item> A finite JavaScript number is an exact \<open>real\<close>; overflow and the infinite values are
    outside the model, and a sum or product is the exact one. A property that holds only
    when a sum is regrouped is therefore stated for inputs on which the additions of the
    code do not round (whole numbers of bounded size). \<open>NaN\<close> is kept where the code can
    meet it: as the result of \<open>Number(x)\<close> on a stored field that is not numeric, and as
    the result of arithmetic on a property that an object inherits.
  \<^item> Records follow the classes as their JSDoc declares them (\<open>ApplianceTypeModel\<close>,
    \<open>ApplianceModel\<close>, \<open>RegionPowerModel\<close>, \<open>LeaderboardItemModel\<close>); a value that may be
    \<open>null\<close> or \<open>undefined\<close> is an \<open>option\<close>.
  \<^item> An object used as a dictionary (\<open>totalRegionPower\<close>, \<open>powerSources\<close>) is the association
    list of its own properties in the order of their creation. A read \<open>obj[key]\<close> finds an
    own property, then a property inherited from \<open>Object.prototype\<close>; \<open>Object.entries\<close>
    lists the own properties, those whose key is an array index first.
  \<^item> Strings are ASCII; \<open>toUpperCase\<close> and \<open>toLowerCase\<close> act on the letters a to z.
\<close>

subsection \<open>Data model\<close>

datatype jsnum = NaN | Num real

text \<open>\<open>models/ApplianceTypeModel.mjs\<close>. \<open>watts\<close> is \<open>None\<close> when the stored value is not of
  type number (the case \<open>typeof appType.watts !== "number"\<close> asks about).\<close>

record ApplianceTypeModel =
  name :: string
  watts :: "real option"

text \<open>\<open>ApplianceModel.mjs\<close>. \<open>hours\<close> and \<open>quantity\<close> hold \<open>Number(appliance.hours)\<close> and
  \<open>Number(appliance.quantity)\<close>, the first thing the code computes from the two fields.\<close>

record ApplianceModel =
  type :: "ApplianceTypeModel option"
  hours :: jsnum
  quantity :: jsnum

text \<open>\<open>models/RegionPowerModel.mjs\<close>: a region and its percentage per power source.\<close>

record RegionPowerModel =
  name :: string
  powerSources :: "(string \<times> real) list"

text \<open>The static table \<open>ApplianceTypeModel.types\<close>.\<close>

definition ApplianceTypeModel_types :: "ApplianceTypeModel list" where
  "ApplianceTypeModel_types =
     [\<lparr>ApplianceTypeModel.name = ''Refrigerator'', watts = Some 100\<rparr>,
      \<lparr>ApplianceTypeModel.name = ''Air Conditioner'', watts = Some 350\<rparr>,
      \<lparr>ApplianceTypeModel.name = ''Heater'', watts = Some 1500\<rparr>,
      \<lparr>ApplianceTypeModel.name = ''Washing Machine'', watts = Some 500\<rparr>,
      \<lparr>ApplianceTypeModel.name = ''Dryer'', watts = Some 3000\<rparr>,
      \<lparr>ApplianceTypeModel.name = ''Dishwasher'', watts = Some 1800\<rparr>,
      \<lparr>ApplianceTypeModel.name = ''Oven'', watts = Some 2150\<rparr>,
      \<lparr>ApplianceTypeModel.name = ''Microwave'', watts = Some 1000\<rparr>,
      \<lparr>ApplianceTypeModel.name = ''Toaster'', watts = Some 800\<rparr>,
      \<lparr>ApplianceTypeModel.name = ''Coffee Maker'', watts = Some 900\<rparr>,
      \<lparr>ApplianceTypeModel.name = ''Television'', watts = Some 150\<rparr>,
      \<lparr>ApplianceTypeModel.name = ''Computer'', watts = Some 200\<rparr>,
      \<lparr>ApplianceTypeModel.name = ''Lamp'', watts = Some 60\<rparr>]"

text \<open>The static table \<open>RegionPowerModel.data\<close>.\<close>

definition RegionPowerModel_data :: "RegionPowerModel list" where
  "RegionPowerModel_data =
     [\<lparr>RegionPowerModel.name = ''NSW'',
       powerSources = [(''wind'', 12), (''solar'', 15), (''gas'', 25), (''coal'', 48)]\<rparr>,
      \<lparr>RegionPowerModel.name = ''VIC'',
       powerSources = [(''wind'', 20), (''solar'', 22), (''gas'', 30), (''coal'', 28)]\<rparr>,
      \<lparr>RegionPowerModel.name = ''QLD'',
       powerSources = [(''wind'', 10), (''solar'', 20), (''gas'', 25), (''coal'', 45)]\<rparr>,
      \<lparr>RegionPowerModel.name = ''WA'',
       powerSources = [(''wind'', 15), (''solar'', 20), (''gas'', 35), (''coal'', 30)]\<rparr>,
      \<lparr>RegionPowerModel.name = ''SA'',
       powerSources = [(''wind'', 40), (''solar'', 30), (''gas'', 20), (''coal'', 10)]\<rparr>,
      \<lparr>RegionPowerModel.name = ''TAS'',
       powerSources = [(''wind'', 60), (''solar'', 20), (''gas'', 10), (''coal'', 10)]\<rparr>,
      \<lparr>RegionPowerModel.name = ''ACT'',
       powerSources = [(''wind'', 30), (''solar'', 40), (''gas'', 20), (''coal'', 10)]\<rparr>,
      \<lparr>RegionPowerModel.name = ''NT'',
       powerSources = [(''wind'', 20), (''solar'', 30), (''gas'', 40), (''coal'', 10)]\<rparr>]"


subsection \<open>JavaScript idioms\<close>

text \<open>\<open>Number(x) || 0\<close>: \<open>NaN\<close> and \<open>0\<close> are falsy, every other number is kept.\<close>

definition numberOr0 :: "jsnum \<Rightarrow> real" where
  "numberOr0 x = (case x of NaN \<Rightarrow> 0 | Num r \<Rightarrow> if r = 0 then 0 else r)"

text \<open>\<open>v || d\<close> for a value \<open>v\<close> that is a number or \<open>undefined\<close>.\<close>

definition orElse :: "real option \<Rightarrow> real \<Rightarrow> real" where
  "orElse v d = (case v of None \<Rightarrow> d | Some r \<Rightarrow> if r = 0 then d else r)"

subsection \<open>Power calculator (\<open>public/scripts/UtilsController.mjs\<close>)\<close>

text \<open>\<open>getAppliancePower(appliance)\<close>; \<open>applianceTypes\<close> is the value of
  \<open>await ApplianceTypeModel.types\<close>, the catalogue the client has fetched.\<close>

definition getAppliancePower :: "ApplianceTypeModel list \<Rightarrow> ApplianceModel option \<Rightarrow> real" where
  "getAppliancePower applianceTypes appliance =
     (case appliance of
        None \<Rightarrow> 0
      | Some a \<Rightarrow>
         (case type a of
            None \<Rightarrow> 0
          | Some t \<Rightarrow>
             if ApplianceTypeModel.name t = [] then 0
             else
               (case find (\<lambda>ty. ApplianceTypeModel.name ty = ApplianceTypeModel.name t)
                       applianceTypes of
                  None \<Rightarrow> 0
                | Some appType \<Rightarrow>
                   (case watts appType of
                      None \<Rightarrow> 0
                    | Some w \<Rightarrow> w * numberOr0 (hours a) * numberOr0 (quantity a)))))"

text \<open>\<open>getLocationPower(appliances)\<close>: \<open>None\<close> is an argument that is not an array, an inner
  \<open>None\<close> an element that is \<open>null\<close> or \<open>undefined\<close>.\<close>

definition getLocationPower ::
  "ApplianceTypeModel list \<Rightarrow> ApplianceModel option list option \<Rightarrow> real" where
  "getLocationPower applianceTypes applianceList =
     (case applianceList of
        None \<Rightarrow> 0
      | Some apps \<Rightarrow>
          foldl (\<lambda>sum app. case app of
                               None \<Rightarrow> sum
                             | Some a \<Rightarrow> sum + getAppliancePower applianceTypes (Some a))
                0 apps)"

text \<open>The power of one appliance as the specification words it: \<open>0\<close> when the instance or
  its type is missing or unmatched in the catalogue, otherwise
  \<open>wattage \<times> max(0, numeric(dailyHours)) \<times> max(0, numeric(quantity))\<close>. \<open>catalogWatts\<close> is the
  wattage the catalogue gives for the instance, \<open>numeric\<close> reads a field as a number with
  \<open>0\<close> for a value that is not numeric.\<close>

definition numeric :: "jsnum \<Rightarrow> real" where
  "numeric x = (case x of NaN \<Rightarrow> 0 | Num r \<Rightarrow> r)"

definition catalogWatts :: "ApplianceTypeModel list \<Rightarrow> ApplianceModel option \<Rightarrow> real option" where
  "catalogWatts applianceTypes appliance =
     (case appliance of
        None \<Rightarrow> None
      | Some a \<Rightarrow>
         (case type a of
            None \<Rightarrow> None
          | Some t \<Rightarrow>
             (case find (\<lambda>ty. ApplianceTypeModel.name ty = ApplianceTypeModel.name t)
                     applianceTypes of
                None \<Rightarrow> None
              | Some appType \<Rightarrow> if ApplianceTypeModel.name t = [] then None else watts appType)))"

definition spec_appliancePower :: "ApplianceTypeModel list \<Rightarrow> ApplianceModel option \<Rightarrow> real" where
  "spec_appliancePower applianceTypes appliance =
     (case (catalogWatts applianceTypes appliance, appliance) of
        (Some w, Some a) \<Rightarrow> w * max 0 (numeric (hours a)) * max 0 (numeric (quantity a))
      | _ \<Rightarrow> 0)"

subsection \<open>Requests and shared entries\<close>

text \<open>The query string of \<open>GET /leaderboard/entries\<close>. \<open>page\<close> holds
  \<open>parseInt(req.query.page)\<close>, \<open>None\<close> for \<open>NaN\<close>; the other four are \<open>None\<close> when the
  parameter is absent.\<close>

record query =
  page :: "int option"
  appType :: "string option"
  powerSource :: "string option"
  region :: "string option"
  sortOrder :: "string option"

text \<open>\<open>SantizedLeaderboardEntryModel.mjs\<close>: the four public fields of an entry. A missing
  region code is the empty string, the falsy value \<open>entry.region || "Unknown"\<close> tests for.\<close>

record SanitizedLeaderboardEntryModel =
  address :: string
  region :: string
  appliances :: "ApplianceModel list"
  publicId :: string

text \<open>\<open>LeaderboardItemModel\<close>, the shared entry of the server's store: the same four
  fields and \<open>privateId\<close>.\<close>

record LeaderboardItemModel = SanitizedLeaderboardEntryModel +
  privateId :: string

text \<open>\<open>{ ...entry, sortValue, totalPower }\<close>: an entry with its two scores. The sort value is
  \<open>NaN\<close> when it is computed from an inherited property.\<close>

record ScoredEntry = LeaderboardItemModel +
  sortValue :: jsnum
  totalPower :: real


subsection \<open>Plain objects as dictionaries\<close>

text \<open>
  The controllers keep their totals in objects created by \<open>{}\<close> and read the percentages
  of a region from the object \<open>powerSources\<close>. Such an object has the own properties it
  was given and inherits those of \<open>Object.prototype\<close>, whose names are listed here.
\<close>

definition objectPrototypeNames :: "string list" where
  "objectPrototypeNames =
     [''constructor'', ''__defineGetter__'', ''__defineSetter__'', ''hasOwnProperty'',
      ''__lookupGetter__'', ''__lookupSetter__'', ''isPrototypeOf'', ''propertyIsEnumerable'',
      ''toString'', ''valueOf'', ''__proto__'', ''toLocaleString'']"

text \<open>The result of a read \<open>obj[key]\<close>: \<open>undefined\<close>, the value of an own property, or an
  inherited property (a function, or \<open>Object.prototype\<close> itself for \<open>__proto__\<close>).\<close>

datatype 'v property = Undefined | Own 'v | Inherited

definition getProperty :: "(string \<times> 'v) list \<Rightarrow> string \<Rightarrow> 'v property" where
  "getProperty obj key =
     (case map_of obj key of
        Some v \<Rightarrow> Own v
      | None \<Rightarrow> if key \<in> set objectPrototypeNames then Inherited else Undefined)"

text \<open>The assignment \<open>obj[key] = v\<close> of a number or a string: it creates or overwrites an
  own property, except under the key \<open>__proto__\<close>, where the inherited setter ignores a
  value that is not an object.\<close>

definition setProperty :: "string \<Rightarrow> 'v \<Rightarrow> (string \<times> 'v) list \<Rightarrow> (string \<times> 'v) list" where
  "setProperty key v obj = (if key = ''__proto__'' then obj else AList.update key v obj)"

text \<open>An array index is the decimal numeral, without a leading zero, of a number below
  \<open>2^32 - 1\<close>.\<close>

definition digitValues :: "(char \<times> nat) list" where
  "digitValues = zip ''0123456789'' [0, 1, 2, 3, 4, 5, 6, 7, 8, 9]"

fun decimalValue :: "nat \<Rightarrow> string \<Rightarrow> nat option" where
  "decimalValue n [] = Some n"
| "decimalValue n (c # cs) =
     (case map_of digitValues c of
        None \<Rightarrow> None
      | Some d \<Rightarrow> decimalValue (10 * n + d) cs)"

definition arrayIndex :: "string \<Rightarrow> nat option" where
  "arrayIndex key =
     (case key of
        [] \<Rightarrow> None
      | c # cs \<Rightarrow>
          if c = CHR ''0'' \<and> cs \<noteq> [] then None
          else (case decimalValue 0 key of
                  None \<Rightarrow> None
                | Some n \<Rightarrow> if n < 4294967295 then Some n else None))"

text \<open>\<open>Object.entries(obj)\<close>: the own properties, those whose key is an array index in
  ascending order of the index, then the others in the order of their creation.\<close>

definition objectEntries :: "(string \<times> 'v) list \<Rightarrow> (string \<times> 'v) list" where
  "objectEntries obj =
     sort_key (\<lambda>p. case arrayIndex (fst p) of None \<Rightarrow> 0 | Some i \<Rightarrow> i)
              (filter (\<lambda>p. arrayIndex (fst p) \<noteq> None) obj)
     @ filter (\<lambda>p. arrayIndex (fst p) = None) obj"

text \<open>\<open>(v || 0)\<close> used as a number, for a read \<open>v\<close> of an object of numbers: \<open>undefined\<close>
  and \<open>0\<close> give \<open>0\<close>; an inherited property is truthy and is \<open>NaN\<close> as a number.\<close>

definition numberOrZero :: "real property \<Rightarrow> jsnum" where
  "numberOrZero v =
     (case v of
        Undefined \<Rightarrow> Num 0
      | Own r \<Rightarrow> Num (if r = 0 then 0 else r)
      | Inherited \<Rightarrow> NaN)"

text \<open>Sum, difference and quotient of numbers that may be \<open>NaN\<close>; the divisor is a literal
  other than \<open>0\<close>.\<close>

definition numAdd :: "jsnum \<Rightarrow> jsnum \<Rightarrow> jsnum" where
  "numAdd x y = (case x of NaN \<Rightarrow> NaN | Num a \<Rightarrow> (case y of NaN \<Rightarrow> NaN | Num b \<Rightarrow> Num (a + b)))"

definition numSubtract :: "jsnum \<Rightarrow> jsnum \<Rightarrow> jsnum" where
  "numSubtract x y =
     (case x of NaN \<Rightarrow> NaN | Num a \<Rightarrow> (case y of NaN \<Rightarrow> NaN | Num b \<Rightarrow> Num (a - b)))"

definition numDivide :: "jsnum \<Rightarrow> real \<Rightarrow> jsnum" where
  "numDivide x d = (case x of NaN \<Rightarrow> NaN | Num a \<Rightarrow> Num (a / d))"

subsection \<open>Statistics aggregation (\<open>controllers/StatisticsController.mjs\<close>)\<close>

text \<open>
  The controllers import \<open>models/UtilsController.mjs\<close>, the server-side copy of the power
  calculator, which is not among the sources. Its two functions are parameters of the
  controllers below: \<open>locationPower\<close> stands for \<open>UtilsController.getLocationPower\<close> and
  \<open>appliancePower\<close> for \<open>UtilsController.getAppliancePower\<close>, both called without
  \<open>await\<close> and used as numbers, so both return a number of the model. The properties of
  the controllers hold for every such pair of functions. \<open>serverLocationPower\<close> and
  \<open>serverAppliancePower\<close> are the client-side functions read against the server's
  catalogue; the examples use them.
\<close>

definition serverAppliancePower :: "ApplianceModel \<Rightarrow> real" where
  "serverAppliancePower app = getAppliancePower ApplianceTypeModel_types (Some app)"

definition serverLocationPower :: "ApplianceModel list \<Rightarrow> real" where
  "serverLocationPower apps = getLocationPower ApplianceTypeModel_types (Some (map Some apps))"

text \<open>\<open>toUpperCase\<close> and \<open>toLowerCase\<close> of one character.\<close>

definition toUpperCaseChar :: "char \<Rightarrow> char" where
  "toUpperCaseChar c =
     (case map_of (zip ''abcdefghijklmnopqrstuvwxyz'' ''ABCDEFGHIJKLMNOPQRSTUVWXYZ'') c of
        None \<Rightarrow> c | Some u \<Rightarrow> u)"

definition toLowerCaseChar :: "char \<Rightarrow> char" where
  "toLowerCaseChar c =
     (case map_of (zip ''ABCDEFGHIJKLMNOPQRSTUVWXYZ'' ''abcdefghijklmnopqrstuvwxyz'') c of
        None \<Rightarrow> c | Some l \<Rightarrow> l)"

definition toLowerCase :: "string \<Rightarrow> string" where
  "toLowerCase s = map toLowerCaseChar s"

text \<open>\<open>sourceName.charAt(0).toUpperCase() + sourceName.slice(1)\<close>.\<close>

definition capitalize :: "string \<Rightarrow> string" where
  "capitalize sourceName =
     (case sourceName of [] \<Rightarrow> [] | c # cs \<Rightarrow> toUpperCaseChar c # cs)"

text \<open>A value held by a totals object: a number, or the string that \<open>+=\<close> builds when the
  key names an inherited property. \<open>JString n [a, b]\<close> is the text of the property \<open>n\<close> of
  \<open>Object.prototype\<close> followed by the decimal forms of \<open>a\<close> and \<open>b\<close>; such a string is not
  empty, so it is truthy, and it is not the numeral of a number.\<close>

datatype jsvalue = JNumber real | JString string "real list"

type_synonym totals = "(string \<times> jsvalue) list"

text \<open>The accumulation the three loops share:
  \<open>if (!totals[key]) { totals[key] = 0; } totals[key] += amount;\<close>
  A missing key and a stored \<open>0\<close> are falsy; a string and an inherited property are
  truthy. \<open>+=\<close> adds to a number and appends to anything else. After the first statement
  the read of the second is never \<open>undefined\<close>.\<close>

definition accumulate :: "string \<Rightarrow> real \<Rightarrow> totals \<Rightarrow> totals" where
  "accumulate key amount totals =
     (let totals1 = (case getProperty totals key of
                       Undefined \<Rightarrow> setProperty key (JNumber 0) totals
                     | Own v \<Rightarrow> if v = JNumber 0 then setProperty key (JNumber 0) totals
                               else totals
                     | Inherited \<Rightarrow> totals)
      in case getProperty totals1 key of
           Undefined \<Rightarrow> totals1
         | Own v \<Rightarrow>
             (case v of
                JNumber x \<Rightarrow> setProperty key (JNumber (x + amount)) totals1
              | JString n appended \<Rightarrow> setProperty key (JString n (appended @ [amount])) totals1)
         | Inherited \<Rightarrow> setProperty key (JString key [amount]) totals1)"

record aggregation =
  totalRegionPower :: totals
  totalAppliances :: totals
  grandTotalPower :: real

text \<open>\<open>entry.region || "Unknown"\<close> and \<open>app.type?.name || "Unknown"\<close>.\<close>

definition regionNameOf :: "LeaderboardItemModel \<Rightarrow> string" where
  "regionNameOf entry = (if region entry = [] then ''Unknown'' else region entry)"

definition appTypeNameOf :: "ApplianceModel \<Rightarrow> string" where
  "appTypeNameOf app =
     (case type app of
        None \<Rightarrow> ''Unknown''
      | Some t \<Rightarrow> if ApplianceTypeModel.name t = [] then ''Unknown'' else ApplianceTypeModel.name t)"

text \<open>The body of \<open>entries.forEach((entry) => ...)\<close>.\<close>

definition addEntry ::
  "(ApplianceModel list \<Rightarrow> real) \<Rightarrow> (ApplianceModel \<Rightarrow> real) \<Rightarrow>
     aggregation \<Rightarrow> LeaderboardItemModel \<Rightarrow> aggregation" where
  "addEntry locationPower appliancePower acc entry =
     (let power = locationPower (appliances entry);
          regionName = regionNameOf entry
      in \<lparr>totalRegionPower = accumulate regionName power (totalRegionPower acc),
          totalAppliances =
            foldl (\<lambda>t app. accumulate (appTypeNameOf app) (appliancePower app) t)
                  (totalAppliances acc) (appliances entry),
          grandTotalPower = grandTotalPower acc + power\<rparr>)"

text \<open>The body of \<open>regionPowerData.forEach((regionPower) => ...)\<close>:
  \<open>regionTotal = totalRegionPower[regionPower.name] || 0\<close>, and for \<open>regionTotal > 0\<close> the
  amount \<open>regionTotal * (Number(percentage || 0) / 100)\<close> for each source of the region.
  The comparison \<open>regionTotal > 0\<close> holds for a positive number only: a string of the
  totals and an inherited property are \<open>NaN\<close> as numbers.\<close>

definition addRegion :: "totals \<Rightarrow> totals \<Rightarrow> RegionPowerModel \<Rightarrow> totals" where
  "addRegion regionTotals totalPowerSources regionPower =
     (case getProperty regionTotals (RegionPowerModel.name regionPower) of
        Undefined \<Rightarrow> totalPowerSources
      | Inherited \<Rightarrow> totalPowerSources
      | Own v \<Rightarrow>
          (case v of
             JString n appended \<Rightarrow> totalPowerSources
           | JNumber regionTotal \<Rightarrow>
               if regionTotal > 0
               then foldl (\<lambda>t (sourceName, percentage).
                             accumulate (capitalize sourceName)
                                        (regionTotal * (orElse (Some percentage) 0 / 100)) t)
                          totalPowerSources (objectEntries (powerSources regionPower))
               else totalPowerSources))"

text \<open>\<open>([name, weight]) => ({ name, weight })\<close>.\<close>

record chartItem =
  name :: string
  weight :: jsvalue

definition toChartItem :: "string \<times> jsvalue \<Rightarrow> chartItem" where
  "toChartItem p = \<lparr>name = fst p, weight = snd p\<rparr>"

record statistics =
  totalEnergy :: real
  stateData :: "chartItem list"
  sourceData :: "chartItem list"
  applianceData :: "chartItem list"

text \<open>\<open>getAggregatedStats\<close>: \<open>storeData\<close> is \<open>LeaderboardItemModel.data\<close>, \<open>None\<close> when it is
  not set. The value is the JSON body of the response; the handler's \<open>error\<close> variable is
  never assigned, so the 500 branch cannot be taken.\<close>

definition getAggregatedStats ::
  "(ApplianceModel list \<Rightarrow> real) \<Rightarrow> (ApplianceModel \<Rightarrow> real) \<Rightarrow>
     LeaderboardItemModel list option \<Rightarrow> statistics" where
  "getAggregatedStats locationPower appliancePower storeData =
     (let entries = (case storeData of None \<Rightarrow> [] | Some es \<Rightarrow> es)
      in if entries = []
         then \<lparr>totalEnergy = 0, stateData = [], sourceData = [], applianceData = []\<rparr>
         else
           (let acc = foldl (addEntry locationPower appliancePower)
                        \<lparr>totalRegionPower = [], totalAppliances = [], grandTotalPower = 0\<rparr>
                        entries;
                totalPowerSources =
                  foldl (addRegion (totalRegionPower acc)) [] RegionPowerModel_data
            in \<lparr>totalEnergy = grandTotalPower acc,
                stateData = map toChartItem (objectEntries (totalRegionPower acc)),
                sourceData = map toChartItem (objectEntries totalPowerSources),
                applianceData = map toChartItem (objectEntries (totalAppliances acc))\<rparr>))"

subsection \<open>Leaderboard query (\<open>controllers/LeaderboardController.mjs\<close>)\<close>

definition PAGE_SIZE :: int where
  "PAGE_SIZE = 16"

text \<open>\<open>calculateSortValues(entry, powerSourceFilter)\<close>, the pair \<open>(sortValue, totalPower)\<close>.
  \<open>sources\<close> is \<open>region?.powerSources || {}\<close>, a plain object in both cases. The three
  keys of the \<open>GREEN\<close> branch are not names of inherited properties, so the operands of
  its sum are numbers; the key of the second branch comes from the request.\<close>

definition calculateSortValues ::
  "(ApplianceModel list \<Rightarrow> real) \<Rightarrow> LeaderboardItemModel \<Rightarrow> string \<Rightarrow> jsnum \<times> real" where
  "calculateSortValues locationPower entry powerSourceFilter =
     (let power = locationPower (appliances entry);
          sources = (case find (\<lambda>r. RegionPowerModel.name r = region entry)
                            RegionPowerModel_data of
                       None \<Rightarrow> []
                     | Some r \<Rightarrow> powerSources r);
          sortVal =
            (if powerSourceFilter = ''GREEN''
             then numDivide
                    (numAdd (numAdd (numberOrZero (getProperty sources ''solar''))
                                    (numberOrZero (getProperty sources ''wind'')))
                            (numberOrZero (getProperty sources ''hydro'')))
                    100
             else if powerSourceFilter \<noteq> ''ANY''
             then numDivide (numberOrZero (getProperty sources (toLowerCase powerSourceFilter))) 100
             else Num power)
      in (sortVal, power))"

text \<open>\<open>compareEntries(a, b, sortOrder, powerSourceFilter)\<close>. A difference that is \<open>NaN\<close>
  is not \<open>0\<close> and is returned.\<close>

definition compareEntries :: "ScoredEntry \<Rightarrow> ScoredEntry \<Rightarrow> string \<Rightarrow> string \<Rightarrow> jsnum" where
  "compareEntries a b sortOrd powerSourceFilter =
     (let sortValueDiff =
            (if sortOrd = ''HIGH'' then numSubtract (sortValue b) (sortValue a)
             else numSubtract (sortValue a) (sortValue b))
      in if sortValueDiff \<noteq> Num 0 then sortValueDiff
         else if powerSourceFilter \<noteq> ''ANY''
         then (if sortOrd = ''HIGH'' then Num (totalPower b - totalPower a)
               else Num (totalPower a - totalPower b))
         else Num 0)"

text \<open>\<open>Array.prototype.sort(compare)\<close> reads the result of the comparator as a number and
  a result \<open>NaN\<close> as \<open>0\<close>.\<close>

definition sortCompare :: "('a \<Rightarrow> 'a \<Rightarrow> jsnum) \<Rightarrow> 'a \<Rightarrow> 'a \<Rightarrow> real" where
  "sortCompare compare x y = (case compare x y of NaN \<Rightarrow> 0 | Num v \<Rightarrow> v)"

text \<open>The sort is stable: an element goes before the first later element that the
  comparator does not put in front of it. Insertion from the right computes that order
  for a comparator that orders the elements consistently, as \<open>compareEntries\<close> does on
  the entries of one request.\<close>

fun insertSorted :: "('a \<Rightarrow> 'a \<Rightarrow> jsnum) \<Rightarrow> 'a \<Rightarrow> 'a list \<Rightarrow> 'a list" where
  "insertSorted compare x [] = [x]"
| "insertSorted compare x (y # ys) =
     (if sortCompare compare x y \<le> 0 then x # y # ys else y # insertSorted compare x ys)"

definition arraySort :: "('a \<Rightarrow> 'a \<Rightarrow> jsnum) \<Rightarrow> 'a list \<Rightarrow> 'a list" where
  "arraySort compare xs = foldr (insertSorted compare) xs []"

text \<open>\<open>Array.prototype.slice(start, end)\<close>: a negative index counts from the end.\<close>

definition slice :: "'a list \<Rightarrow> int \<Rightarrow> int \<Rightarrow> 'a list" where
  "slice xs start fin =
     (let len = int (length xs);
          k = (if start < 0 then max (len + start) 0 else min start len);
          final = (if fin < 0 then max (len + fin) 0 else min fin len)
      in take (nat (final - k)) (drop (nat k) xs))"

text \<open>\<open>req.query.x || "DEFAULT"\<close>: an absent and an empty parameter are both falsy.\<close>

definition paramOr :: "string option \<Rightarrow> string \<Rightarrow> string" where
  "paramOr v d = (case v of None \<Rightarrow> d | Some s \<Rightarrow> if s = [] then d else s)"

text \<open>The predicate of \<open>LeaderboardItemModel.data.filter((entry) => ...)\<close>. The test
  \<open>!entry.appliances || !Array.isArray(entry.appliances)\<close> is false for every entry of the
  declared type.\<close>

definition passesFilters :: "string \<Rightarrow> string \<Rightarrow> LeaderboardItemModel \<Rightarrow> bool" where
  "passesFilters regionFilter appTypeFilter entry =
     (if regionFilter \<noteq> ''ALL'' \<and> region entry \<noteq> regionFilter then False
      else if appTypeFilter \<noteq> ''ANY''
      then (if \<not> list_ex (\<lambda>app. case type app of
                                    None \<Rightarrow> False
                                  | Some t \<Rightarrow> ApplianceTypeModel.name t = appTypeFilter)
                          (appliances entry)
            then False else True)
      else True)"

definition withSortValues ::
  "(ApplianceModel list \<Rightarrow> real) \<Rightarrow> string \<Rightarrow> LeaderboardItemModel \<Rightarrow> ScoredEntry" where
  "withSortValues locationPower powerSourceFilter entry =
     (let scores = calculateSortValues locationPower entry powerSourceFilter
      in \<lparr>address = address entry, region = region entry,
          appliances = appliances entry, publicId = publicId entry,
          privateId = privateId entry,
          sortValue = fst scores, totalPower = snd scores\<rparr>)"

text \<open>Filter, score and sort: the list \<open>entriesWithSortValue\<close> after \<open>sort\<close>.\<close>

definition rankedEntries ::
  "(ApplianceModel list \<Rightarrow> real) \<Rightarrow> LeaderboardItemModel list \<Rightarrow>
     string \<Rightarrow> string \<Rightarrow> string \<Rightarrow> string \<Rightarrow> ScoredEntry list" where
  "rankedEntries locationPower storeEntries appTypeFilter powerSourceFilter regionFilter sortOrd =
     (let filteredEntries = filter (passesFilters regionFilter appTypeFilter) storeEntries;
          entriesWithSortValue =
            map (withSortValues locationPower powerSourceFilter) filteredEntries
      in arraySort (\<lambda>a b. compareEntries a b sortOrd powerSourceFilter) entriesWithSortValue)"

text \<open>The object literal of \<open>sanitizedEntries\<close>; \<open>entry.appliances\<close> is the array the
  declared type of an entry gives.\<close>

definition sanitize :: "ScoredEntry \<Rightarrow> SanitizedLeaderboardEntryModel" where
  "sanitize entry =
     \<lparr>address = address entry,
      region = region entry,
      appliances = map (\<lambda>app. \<lparr>type = type app, hours = hours app, quantity = quantity app\<rparr>)
                       (appliances entry),
      publicId = publicId entry\<rparr>"

datatype httpError = Status500

record leaderboardPage =
  entries :: "SanitizedLeaderboardEntryModel list"
  currentPage :: int
  totalPages :: int
  totalEntries :: int

text \<open>\<open>getEntries\<close>: \<open>storeData\<close> is \<open>LeaderboardItemModel.data\<close>, \<open>None\<close> when it is not set
  (the handler then answers with status 500).\<close>

definition getEntries ::
  "(ApplianceModel list \<Rightarrow> real) \<Rightarrow> LeaderboardItemModel list option \<Rightarrow> query \<Rightarrow>
     httpError + leaderboardPage" where
  "getEntries locationPower storeData q =
     (let pageNo = (case page q of None \<Rightarrow> 1 | Some p \<Rightarrow> if p = 0 then 1 else p);
          appTypeFilter = paramOr (appType q) ''ANY'';
          powerSourceFilter = paramOr (powerSource q) ''GREEN'';
          regionFilter = paramOr (query.region q) ''ALL'';
          sortOrd = paramOr (sortOrder q) ''HIGH''
      in case storeData of
           None \<Rightarrow> Inl Status500
         | Some storeEntries \<Rightarrow>
            (let entriesWithSortValue =
                   rankedEntries locationPower storeEntries
                     appTypeFilter powerSourceFilter regionFilter sortOrd;
                 entryCount = int (length entriesWithSortValue);
                 pages = (let c = \<lceil>real_of_int entryCount / real_of_int PAGE_SIZE\<rceil>
                          in if c = 0 then 1 else c);
                 safePage = max 1 (min pageNo pages);
                 startIndex = (safePage - 1) * PAGE_SIZE;
                 endIndex = startIndex + PAGE_SIZE;
                 entriesForPage = slice entriesWithSortValue startIndex endIndex
             in Inr \<lparr>entries = map sanitize entriesForPage,
                     currentPage = safePage,
                     totalPages = pages,
                     totalEntries = entryCount\<rparr>))"

subsection \<open>Vocabulary of the properties\<close>

text \<open>A run of accumulations, the amount a key receives in such a run, and the
  amounts the first loop of \<open>getAggregatedStats\<close> hands to the region totals.\<close>

definition accumulateAll :: "totals \<Rightarrow> (string \<times> real) list \<Rightarrow> totals" where
  "accumulateAll acc kvs = foldl (\<lambda>t kv. accumulate (fst kv) (snd kv) t) acc kvs"

definition amountFor :: "string \<Rightarrow> (string \<times> real) list \<Rightarrow> real" where
  "amountFor n kvs = sum_list (map snd (filter (\<lambda>kv. fst kv = n) kvs))"

definition regionAmounts ::
  "(ApplianceModel list \<Rightarrow> real) \<Rightarrow> LeaderboardItemModel list \<Rightarrow> (string \<times> real) list" where
  "regionAmounts lp es = map (\<lambda>e. (regionNameOf e, lp (appliances e))) es"

text \<open>The number a value of the totals stands for (\<open>0\<close> for a string), and the number
  stored under a key (\<open>0\<close> when there is none).\<close>

definition numberOf :: "jsvalue \<Rightarrow> real" where
  "numberOf v = (case v of JNumber x \<Rightarrow> x | JString n appended \<Rightarrow> 0)"

definition numberAt :: "totals \<Rightarrow> string \<Rightarrow> real" where
  "numberAt m k = (case map_of m k of None \<Rightarrow> 0 | Some v \<Rightarrow> numberOf v)"

text \<open>Totals in which every key that is not the name of an inherited property holds a
  number.\<close>

definition plainNumbers :: "totals \<Rightarrow> bool" where
  "plainNumbers m =
     list_all (\<lambda>p. case snd p of
                       JNumber x \<Rightarrow> True
                     | JString n appended \<Rightarrow> fst p \<in> set objectPrototypeNames) m"

text \<open>The amounts one region hands to the source totals in the second loop.\<close>

definition sourceAmounts :: "totals \<Rightarrow> RegionPowerModel \<Rightarrow> (string \<times> real) list" where
  "sourceAmounts regionTotals r =
     (if numberAt regionTotals (RegionPowerModel.name r) > 0
      then map (\<lambda>sp. (capitalize (fst sp),
                       numberAt regionTotals (RegionPowerModel.name r) * (snd sp / 100)))
               (objectEntries (powerSources r))
      else [])"

text \<open>Reading a chart list: its pairs of name and weight, the number under a region and
  under a source (\<open>0\<close> when the list has no item of that name), and the percentage a
  region's mix gives to a source under its display name (\<open>0\<close> when the mix has no such
  source).\<close>

definition chartPairs :: "chartItem list \<Rightarrow> (string \<times> jsvalue) list" where
  "chartPairs items = map (\<lambda>i. (chartItem.name i, weight i)) items"

definition regionWeight :: "statistics \<Rightarrow> string \<Rightarrow> real" where
  "regionWeight s n = numberAt (chartPairs (stateData s)) n"

definition sourceWeight :: "statistics \<Rightarrow> string \<Rightarrow> real" where
  "sourceWeight s n = numberAt (chartPairs (sourceData s)) n"

definition mixShare :: "RegionPowerModel \<Rightarrow> string \<Rightarrow> real" where
  "mixShare r n = sum_list (map snd (filter (\<lambda>sp. capitalize (fst sp) = n) (powerSources r)))"

text \<open>The leaderboard request as \<open>getEntries\<close> reads it: the page asked for
  (\<open>parseInt(req.query.page) || 1\<close>), the four filters after their defaults, the ranked
  list for a request, and the number of pages \<open>Math.ceil(n / PAGE_SIZE) || 1\<close> for
  \<open>n \<ge> 0\<close> entries. \<open>entryCompare\<close> compares two store entries by their scores,
  \<open>publicView\<close> is an entry without \<open>privateId\<close>.\<close>

definition requestedPage :: "query \<Rightarrow> int" where
  "requestedPage q = (case page q of None \<Rightarrow> 1 | Some p \<Rightarrow> if p = 0 then 1 else p)"

definition requestFilters :: "query \<Rightarrow> string \<times> string \<times> string \<times> string" where
  "requestFilters q =
     (paramOr (appType q) ''ANY'', paramOr (powerSource q) ''GREEN'',
      paramOr (query.region q) ''ALL'', paramOr (sortOrder q) ''HIGH'')"

definition rankedFor ::
  "(ApplianceModel list \<Rightarrow> real) \<Rightarrow> LeaderboardItemModel list \<Rightarrow> query \<Rightarrow> ScoredEntry list" where
  "rankedFor lp es q =
     (case requestFilters q of (a, f, r, so) \<Rightarrow> rankedEntries lp es a f r so)"

definition pageCount :: "int \<Rightarrow> int" where
  "pageCount n = max 1 \<lceil>real_of_int n / real_of_int PAGE_SIZE\<rceil>"

definition entryCompare ::
  "(ApplianceModel list \<Rightarrow> real) \<Rightarrow> string \<Rightarrow> string \<Rightarrow>
     LeaderboardItemModel \<Rightarrow> LeaderboardItemModel \<Rightarrow> jsnum" where
  "entryCompare lp f so e1 e2 =
     compareEntries (withSortValues lp f e1) (withSortValues lp f e2) so f"

definition publicView :: "LeaderboardItemModel \<Rightarrow> SanitizedLeaderboardEntryModel" where
  "publicView e =
     \<lparr>address = address e, region = region e, appliances = appliances e, publicId = publicId e\<rparr>"

text \<open>The score of an entry as the specification words it: the mix of the entry's
  region (empty when the region is not in the table), the percentage of a source in a mix
  (\<open>0\<close> when missing), and the green share \<open>(solar + wind + hydro) / 100\<close>.\<close>

definition regionMix :: "string \<Rightarrow> (string \<times> real) list" where
  "regionMix code =
     (case find (\<lambda>r. RegionPowerModel.name r = code) RegionPowerModel_data of
        None \<Rightarrow> [] | Some r \<Rightarrow> powerSources r)"

definition share :: "(string \<times> real) list \<Rightarrow> string \<Rightarrow> real" where
  "share mix source = (case map_of mix source of None \<Rightarrow> 0 | Some p \<Rightarrow> p)"

definition greenShareFraction :: "(string \<times> real) list \<Rightarrow> real" where
  "greenShareFraction mix = (share mix ''solar'' + share mix ''wind'' + share mix ''hydro'') / 100"

text \<open>The green share of the region of an answered entry, and a parameter that the
  request omits: absent or empty.\<close>

definition greenShareOf :: "SanitizedLeaderboardEntryModel \<Rightarrow> real" where
  "greenShareOf s = greenShareFraction (regionMix (region s))"

definition omitted :: "string option \<Rightarrow> bool" where
  "omitted v = (case v of None \<Rightarrow> True | Some s \<Rightarrow> s = [])"

subsection \<open>Example data\<close>

definition heaterType :: ApplianceTypeModel where
  "heaterType = \<lparr>ApplianceTypeModel.name = ''Heater'', watts = Some 1500\<rparr>"

definition lampType :: ApplianceTypeModel where
  "lampType = \<lparr>ApplianceTypeModel.name = ''Lamp'', watts = Some 60\<rparr>"

definition sydneyHome :: LeaderboardItemModel where
  "sydneyHome =
     \<lparr>address = ''1 George St'', region = ''NSW'',
      appliances = [\<lparr>type = Some heaterType, hours = Num 2, quantity = Num 1\<rparr>],
      publicId = ''pub-1'', privateId = ''priv-1''\<rparr>"

definition farAwayHome :: LeaderboardItemModel where
  "farAwayHome =
     \<lparr>address = ''9 Nowhere Rd'', region = ''ZZZ'',
      appliances = [\<lparr>type = Some lampType, hours = Num 10, quantity = Num 1\<rparr>],
      publicId = ''pub-2'', privateId = ''priv-2''\<rparr>"

text \<open>An entry without a region code, and two entries whose region code is the name of
  a property that every object inherits.\<close>

definition noRegionHome :: LeaderboardItemModel where
  "noRegionHome =
     \<lparr>address = ''3 Unmarked Ln'', region = [],
      appliances = [\<lparr>type = Some lampType, hours = Num 5, quantity = Num 1\<rparr>],
      publicId = ''pub-4'', privateId = ''priv-4''\<rparr>"

definition protoHome :: LeaderboardItemModel where
  "protoHome =
     \<lparr>address = ''7 Odd St'', region = ''__proto__'',
      appliances = [\<lparr>type = Some heaterType, hours = Num 2, quantity = Num 1\<rparr>],
      publicId = ''pub-5'', privateId = ''priv-5''\<rparr>"

definition constructorHome :: LeaderboardItemModel where
  "constructorHome =
     \<lparr>address = ''8 Odd St'', region = ''constructor'',
      appliances = [\<lparr>type = Some lampType, hours = Num 10, quantity = Num 1\<rparr>],
      publicId = ''pub-6'', privateId = ''priv-6''\<rparr>"

definition nswRegion :: RegionPowerModel where
  "nswRegion =
     \<lparr>RegionPowerModel.name = ''NSW'',
      powerSources = [(''wind'', 12), (''solar'', 15), (''gas'', 25), (''coal'', 48)]\<rparr>"

definition fridgeType :: ApplianceTypeModel where
  "fridgeType = \<lparr>ApplianceTypeModel.name = ''Refrigerator'', watts = Some 100\<rparr>"

definition fridge80Home :: LeaderboardItemModel where
  "fridge80Home =
     \<lparr>address = ''80 Pitt St'', region = ''NSW'',
      appliances = [\<lparr>type = Some fridgeType, hours = Num (4 / 5), quantity = Num 1\<rparr>],
      publicId = ''pub-80'', privateId = ''priv-80''\<rparr>"

definition fridge40Home :: LeaderboardItemModel where
  "fridge40Home =
     \<lparr>address = ''40 Pitt St'', region = ''NSW'',
      appliances = [\<lparr>type = Some fridgeType, hours = Num (2 / 5), quantity = Num 1\<rparr>],
      publicId = ''pub-40'', privateId = ''priv-40''\<rparr>"

definition hobartHome :: LeaderboardItemModel where
  "hobartHome =
     \<lparr>address = ''5 Davey St'', region = ''TAS'',
      appliances = [\<lparr>type = Some lampType, hours = Num 10, quantity = Num 1\<rparr>],
      publicId = ''pub-3'', privateId = ''priv-3''\<rparr>"

definition noParameters :: query where
  "noParameters = \<lparr>page = None, appType = None, powerSource = None, region = None, sortOrder = None\<rparr>"

text \<open>The answer to a request that no entry matches.\<close>

definition emptyPage :: leaderboardPage where
  "emptyPage = \<lparr>entries = [], currentPage = 1, totalPages = 1, totalEntries = 0\<rparr>"

section \<open>Properties\<close>

subsection \<open>Power of one appliance\<close>

lemma numberOr0_numeric: "numberOr0 x = numeric x"
  by (cases x) (simp_all add: numberOr0_def numeric_def)

lemma find_unmatched:
  "\<forall>ty \<in> set tys. ApplianceTypeModel.name ty \<noteq> n \<Longrightarrow>
     find (\<lambda>ty. ApplianceTypeModel.name ty = n) tys = None"
  by (simp add: find_None_iff)

lemma find_heater:
  "find (\<lambda>ty. ApplianceTypeModel.name ty = ''Heater'') ApplianceTypeModel_types = Some heaterType"
  by (simp add: ApplianceTypeModel_types_def heaterType_def)

lemma find_lamp:
  "find (\<lambda>ty. ApplianceTypeModel.name ty = ''Lamp'') ApplianceTypeModel_types = Some lampType"
  by (simp add: ApplianceTypeModel_types_def lampType_def)

lemma find_unlisted:
  "find (\<lambda>ty. ApplianceTypeModel.name ty = ''Kettle'') ApplianceTypeModel_types = None"
  by (simp add: ApplianceTypeModel_types_def)

text \<open>
  Claim C2, as stated: \<open>getAppliancePower\<close> is \<open>0\<close> for a missing or unmatched instance and
  otherwise \<open>wattage \<times> max(0, numeric(hours)) \<times> max(0, numeric(quantity))\<close>, negative hours
  and quantities clamping to \<open>0\<close>. The code has no clamp: a heater (1500 W) with
  \<open>hours = -2\<close> and \<open>quantity = 1\<close> gives \<open>-3000\<close>, where the stated formula gives \<open>0\<close>.
\<close>

theorem getAppliancePower_negative_hours_counterexample:
  "getAppliancePower ApplianceTypeModel_types
     (Some \<lparr>type = Some \<lparr>ApplianceTypeModel.name = ''Heater'', watts = Some 1500\<rparr>,
            hours = Num (- 2), quantity = Num 1\<rparr>) = - 3000
   \<and> spec_appliancePower ApplianceTypeModel_types
     (Some \<lparr>type = Some \<lparr>ApplianceTypeModel.name = ''Heater'', watts = Some 1500\<rparr>,
            hours = Num (- 2), quantity = Num 1\<rparr>) = 0"
  by (simp add: getAppliancePower_def spec_appliancePower_def catalogWatts_def find_heater
        heaterType_def numberOr0_def numeric_def)

text \<open>
  Claim C2, amended: \<open>getAppliancePower\<close> returns \<open>0\<close> when the instance is missing, when its
  type is missing or has an empty name, when no catalogue type has that name, and when the
  matched type carries no numeric wattage; otherwise it returns
  \<open>wattage \<times> numeric(hours) \<times> numeric(quantity)\<close>, where a value that is not numeric (\<open>NaN\<close>)
  counts as \<open>0\<close> and a negative value is kept as it is. The result agrees with the clamped
  formula of the specification whenever hours and quantity are not negative. The function
  is total: it returns a number on every input.
\<close>

theorem getAppliancePower_unclamped:
  "getAppliancePower tys None = 0
   \<and> (type a = None \<longrightarrow> getAppliancePower tys (Some a) = 0)
   \<and> (type a = Some t
        \<and> (ApplianceTypeModel.name t = []
            \<or> (\<forall>ty \<in> set tys. ApplianceTypeModel.name ty \<noteq> ApplianceTypeModel.name t))
        \<longrightarrow> getAppliancePower tys (Some a) = 0)
   \<and> (type a = Some t \<and> ApplianceTypeModel.name t \<noteq> []
        \<and> find (\<lambda>ty. ApplianceTypeModel.name ty = ApplianceTypeModel.name t) tys = Some ty
        \<longrightarrow> getAppliancePower tys (Some a) =
             (case watts ty of
                None \<Rightarrow> 0
              | Some w \<Rightarrow> w * numeric (hours a) * numeric (quantity a)))
   \<and> (0 \<le> numeric (hours a) \<and> 0 \<le> numeric (quantity a)
        \<longrightarrow> getAppliancePower tys (Some a) = spec_appliancePower tys (Some a))"
  by (auto simp: getAppliancePower_def spec_appliancePower_def catalogWatts_def
        numberOr0_numeric find_unmatched max_def split: option.splits)

theorem getAppliancePower_unclamped_witness:
  "getAppliancePower ApplianceTypeModel_types
     (Some \<lparr>type = Some heaterType, hours = Num 2, quantity = Num 3\<rparr>) = 9000
   \<and> spec_appliancePower ApplianceTypeModel_types
     (Some \<lparr>type = Some heaterType, hours = Num 2, quantity = Num 3\<rparr>) = 9000
   \<and> getAppliancePower ApplianceTypeModel_types
     (Some \<lparr>type = Some heaterType, hours = NaN, quantity = Num 3\<rparr>) = 0
   \<and> getAppliancePower ApplianceTypeModel_types
     (Some \<lparr>type = None, hours = Num 2, quantity = Num 3\<rparr>) = 0
   \<and> getAppliancePower ApplianceTypeModel_types
     (Some \<lparr>type = Some \<lparr>ApplianceTypeModel.name = ''Kettle'', watts = Some 2000\<rparr>,
            hours = Num 2, quantity = Num 3\<rparr>) = 0"
  using
    getAppliancePower_unclamped [of ApplianceTypeModel_types
      "\<lparr>type = Some heaterType, hours = Num 2, quantity = Num 3\<rparr>" heaterType heaterType]
    getAppliancePower_unclamped [of ApplianceTypeModel_types
      "\<lparr>type = Some heaterType, hours = NaN, quantity = Num 3\<rparr>" heaterType heaterType]
    getAppliancePower_unclamped [of ApplianceTypeModel_types
      "\<lparr>type = None, hours = Num 2, quantity = Num 3\<rparr>" heaterType heaterType]
    getAppliancePower_unclamped [of ApplianceTypeModel_types
      "\<lparr>type = Some \<lparr>ApplianceTypeModel.name = ''Kettle'', watts = Some 2000\<rparr>,
        hours = Num 2, quantity = Num 3\<rparr>"
      "\<lparr>ApplianceTypeModel.name = ''Kettle'', watts = Some 2000\<rparr>" heaterType]
    find_heater find_unlisted
  by (simp add: heaterType_def numeric_def find_None_iff)

subsection \<open>Plain objects\<close>

lemma proto_inherited: "''__proto__'' \<in> set objectPrototypeNames"
  by (simp add: objectPrototypeNames_def)

lemma getProperty_plain:
  "key \<notin> set objectPrototypeNames \<Longrightarrow>
     getProperty obj key = (case map_of obj key of None \<Rightarrow> Undefined | Some v \<Rightarrow> Own v)"
  by (simp add: getProperty_def split: option.splits)

lemma setProperty_plain:
  "key \<notin> set objectPrototypeNames \<Longrightarrow> setProperty key v obj = AList.update key v obj"
  using proto_inherited by (auto simp: setProperty_def)

lemma map_of_setProperty_other:
  "k' \<noteq> k \<Longrightarrow> map_of (setProperty k v obj) k' = map_of obj k'"
  by (simp add: setProperty_def AList.update_conv')

lemma distinct_setProperty:
  "distinct (map fst obj) \<Longrightarrow> distinct (map fst (setProperty k v obj))"
  by (simp add: setProperty_def AList.distinct_update)

lemma mset_objectEntries: "mset (objectEntries obj) = mset obj"
  by (simp add: objectEntries_def)

lemma set_objectEntries: "set (objectEntries obj) = set obj"
  using mset_objectEntries [of obj] by (metis set_mset_mset)

lemma distinct_objectEntries:
  "distinct (map fst (objectEntries obj)) = distinct (map fst obj)"
proof -
  have "mset (map fst (objectEntries obj)) = mset (map fst obj)"
    by (simp only: mset_map mset_objectEntries)
  then show ?thesis by (rule mset_eq_imp_distinct_iff)
qed

lemma map_of_objectEntries:
  assumes "distinct (map fst obj)"
  shows "map_of (objectEntries obj) = map_of obj"
proof (rule map_of_inject_set [THEN iffD2])
  show "distinct (map fst (objectEntries obj))"
    using assms by (simp only: distinct_objectEntries)
  show "distinct (map fst obj)" by (rule assms)
  show "set (objectEntries obj) = set obj" by (rule set_objectEntries)
qed

lemma sum_objectEntries:
  "sum_list (map f (objectEntries obj)) = sum_list (map f obj)" for f :: "string \<times> 'v \<Rightarrow> real"
proof -
  have "sum_mset (mset (map f (objectEntries obj))) = sum_mset (mset (map f obj))"
    by (simp only: mset_map mset_objectEntries)
  then show ?thesis by (simp only: sum_mset_sum_list)
qed

lemma objectEntries_no_index:
  "\<forall>p \<in> set obj. arrayIndex (fst p) = None \<Longrightarrow> objectEntries obj = obj"
  by (simp add: objectEntries_def filter_empty_conv [THEN iffD2] filter_id_conv [THEN iffD2])

lemma objectEntries_Nil [simp]: "objectEntries [] = []"
  by (simp add: objectEntries_def)

lemma foldl_add: "foldl (+) a xs = a + sum_list (xs :: real list)"
  by (induction xs arbitrary: a) simp_all

lemma foldl_add_0: "foldl (+) 0 xs = sum_list (xs :: real list)"
  by (simp add: foldl_add)

subsection \<open>Accumulation into totals\<close>

lemma orElse_Some_0: "orElse (Some x) 0 = x"
  by (simp add: orElse_def)

lemma plainNumbers_Nil [simp]: "plainNumbers []"
  by (simp add: plainNumbers_def)

lemma plainNumbers_lookup:
  assumes "plainNumbers m" "k \<notin> set objectPrototypeNames" "map_of m k = Some v"
  shows "v = JNumber (numberOf v)"
proof -
  from assms(3) have "(k, v) \<in> set m" by (rule map_of_SomeD)
  with assms(1,2) show ?thesis
    by (auto simp: plainNumbers_def list_all_iff numberOf_def split: jsvalue.splits)
qed

lemma plainNumbers_update:
  "plainNumbers m \<Longrightarrow> (\<forall>n a. v = JString n a \<longrightarrow> k \<in> set objectPrototypeNames) \<Longrightarrow>
     plainNumbers (AList.update k v m)"
  by (induction m) (auto simp: plainNumbers_def split: jsvalue.splits)

lemma accumulate_plain:
  assumes "k \<notin> set objectPrototypeNames" "plainNumbers m"
  shows "accumulate k a m = AList.update k (JNumber (numberAt m k + a)) m"
proof (cases "map_of m k")
  case None
  then show ?thesis
    by (simp add: accumulate_def getProperty_plain [OF assms(1)] setProperty_plain [OF assms(1)]
          numberAt_def AList.update_conv')
next
  case (Some v)
  with assms have v: "v = JNumber (numberOf v)" by (intro plainNumbers_lookup)
  show ?thesis
  proof (cases "numberOf v = 0")
    case True
    with v have "v = JNumber 0" by simp
    with Some show ?thesis
      by (simp add: accumulate_def getProperty_plain [OF assms(1)] setProperty_plain [OF assms(1)]
            numberAt_def numberOf_def AList.update_conv')
  next
    case False
    with v have "v \<noteq> JNumber 0" by auto
    with Some v show ?thesis
      by (cases v)
         (simp_all add: accumulate_def getProperty_plain [OF assms(1)]
            setProperty_plain [OF assms(1)] numberAt_def numberOf_def)
  qed
qed

lemma map_of_accumulate_other:
  "k' \<noteq> k \<Longrightarrow> map_of (accumulate k a m) k' = map_of m k'"
  by (auto simp: accumulate_def Let_def map_of_setProperty_other
           split: property.splits jsvalue.splits)

lemma distinct_accumulate:
  "distinct (map fst m) \<Longrightarrow> distinct (map fst (accumulate k a m))"
  by (auto simp: accumulate_def Let_def distinct_setProperty
           split: property.splits jsvalue.splits)

lemma plainNumbers_setProperty:
  "plainNumbers m \<Longrightarrow> (\<forall>n a. v = JString n a \<longrightarrow> k \<in> set objectPrototypeNames) \<Longrightarrow>
     plainNumbers (setProperty k v m)"
  by (simp add: setProperty_def plainNumbers_update)

lemma getProperty_Inherited:
  "getProperty m k = Inherited \<Longrightarrow> k \<in> set objectPrototypeNames"
  by (auto simp: getProperty_def split: option.splits if_splits)

lemma getProperty_Own: "getProperty m k = Own v \<longleftrightarrow> map_of m k = Some v"
  by (auto simp: getProperty_def split: option.splits)

lemma plainNumbers_accumulate:
  assumes "plainNumbers m"
  shows "plainNumbers (accumulate k a m)"
proof -
  define m1 where "m1 = (case getProperty m k of
                       Undefined \<Rightarrow> setProperty k (JNumber 0) m
                     | Own v \<Rightarrow> if v = JNumber 0 then setProperty k (JNumber 0) m else m
                     | Inherited \<Rightarrow> m)"
  have m1: "plainNumbers m1"
    unfolding m1_def using assms
    by (auto simp: plainNumbers_setProperty split: property.splits)
  have string: "k \<in> set objectPrototypeNames" if "map_of m1 k = Some (JString n s)" for n s
  proof (rule ccontr)
    assume "k \<notin> set objectPrototypeNames"
    from plainNumbers_lookup [OF m1 this that] show False by simp
  qed
  have "accumulate k a m =
          (case getProperty m1 k of
             Undefined \<Rightarrow> m1
           | Own v \<Rightarrow>
               (case v of
                  JNumber x \<Rightarrow> setProperty k (JNumber (x + a)) m1
                | JString n appended \<Rightarrow> setProperty k (JString n (appended @ [a])) m1)
           | Inherited \<Rightarrow> setProperty k (JString k [a]) m1)"
    by (simp only: accumulate_def m1_def Let_def)
  also have "plainNumbers \<dots>"
    using m1 string
    by (auto simp: plainNumbers_setProperty getProperty_Own dest: getProperty_Inherited
             split: property.splits jsvalue.splits)
  finally show ?thesis .
qed

lemma map_of_accumulate_plain:
  assumes "plainNumbers m" "k' \<notin> set objectPrototypeNames"
  shows "map_of (accumulate k a m) k' =
           (if k' = k then Some (JNumber (numberAt m k + a)) else map_of m k')"
proof (cases "k' = k")
  case True
  with assms show ?thesis
    by (simp add: accumulate_plain AList.update_conv')
next
  case False
  then show ?thesis by (simp add: map_of_accumulate_other)
qed

lemma sum_update:
  "sum_list (map (\<lambda>p. numberOf (snd p)) (AList.update k x m)) =
     sum_list (map (\<lambda>p. numberOf (snd p)) m) - numberAt m k + numberOf x"
  by (induction m) (auto simp: numberAt_def)

lemma sum_accumulate_plain:
  assumes "k \<notin> set objectPrototypeNames" "plainNumbers m"
  shows "sum_list (map (\<lambda>p. numberOf (snd p)) (accumulate k a m)) =
           sum_list (map (\<lambda>p. numberOf (snd p)) m) + a"
  by (simp only: accumulate_plain [OF assms] sum_update) (simp add: numberOf_def)

lemma accumulateAll_Nil: "accumulateAll acc [] = acc"
  by (simp add: accumulateAll_def)

lemma accumulateAll_Cons:
  "accumulateAll acc (kv # kvs) = accumulateAll (accumulate (fst kv) (snd kv) acc) kvs"
  by (simp add: accumulateAll_def)

lemma accumulateAll_append:
  "accumulateAll acc (xs @ ys) = accumulateAll (accumulateAll acc xs) ys"
  by (simp add: accumulateAll_def)

lemma amountFor_simps [simp]:
  "amountFor n [] = 0"
  "amountFor n (kv # kvs) = (if fst kv = n then snd kv + amountFor n kvs else amountFor n kvs)"
  by (simp_all add: amountFor_def)

lemma amountFor_append [simp]: "amountFor n (xs @ ys) = amountFor n xs + amountFor n ys"
  by (simp add: amountFor_def)

lemma amountFor_absent: "n \<notin> fst ` set kvs \<Longrightarrow> amountFor n kvs = 0"
  by (induction kvs) auto

lemma amountFor_concat: "amountFor n (concat xss) = sum_list (map (amountFor n) xss)"
  by (induction xss) simp_all

lemma amountFor_scaled:
  "amountFor n (map (\<lambda>sp. (f (fst sp), c * (snd sp / 100))) sps) =
     c * sum_list (map snd (filter (\<lambda>sp. f (fst sp) = n) sps)) / 100"
  by (induction sps) (simp_all add: algebra_simps add_divide_distrib)

lemma plainNumbers_accumulateAll:
  "plainNumbers acc \<Longrightarrow> plainNumbers (accumulateAll acc kvs)"
  by (induction kvs arbitrary: acc)
     (simp_all add: accumulateAll_Nil accumulateAll_Cons plainNumbers_accumulate)

lemma distinct_accumulateAll:
  "distinct (map fst acc) \<Longrightarrow> distinct (map fst (accumulateAll acc kvs))"
  by (induction kvs arbitrary: acc)
     (simp_all add: accumulateAll_Nil accumulateAll_Cons distinct_accumulate)

lemma numberAt_accumulate:
  assumes "plainNumbers m" "n \<notin> set objectPrototypeNames"
  shows "numberAt (accumulate k a m) n = (if n = k then numberAt m k + a else numberAt m n)"
  by (simp add: numberAt_def [of "accumulate k a m"] map_of_accumulate_plain [OF assms]
        numberOf_def)
     (simp add: numberAt_def)

lemma map_of_accumulateAll:
  assumes "plainNumbers acc" "n \<notin> set objectPrototypeNames"
  shows "map_of (accumulateAll acc kvs) n =
     (if n \<in> fst ` set kvs then Some (JNumber (numberAt acc n + amountFor n kvs))
      else map_of acc n)"
  using assms(1)
proof (induction kvs arbitrary: acc)
  case Nil
  then show ?case by (simp add: accumulateAll_Nil)
next
  case (Cons kv kvs)
  have pn: "plainNumbers (accumulate (fst kv) (snd kv) acc)"
    using Cons.prems by (rule plainNumbers_accumulate)
  show ?case
    unfolding accumulateAll_Cons Cons.IH [OF pn]
    using Cons.prems assms(2)
    by (auto simp: map_of_accumulate_plain numberAt_accumulate amountFor_absent)
qed

lemma map_of_accumulateAll_empty:
  assumes "n \<notin> set objectPrototypeNames"
  shows "map_of (accumulateAll [] kvs) n =
     (if n \<in> fst ` set kvs then Some (JNumber (amountFor n kvs)) else None)"
  by (simp add: map_of_accumulateAll [OF _ assms] numberAt_def)

lemma numberAt_accumulateAll_empty:
  assumes "n \<notin> set objectPrototypeNames"
  shows "numberAt (accumulateAll [] kvs) n = amountFor n kvs"
  by (simp add: numberAt_def [of "accumulateAll [] kvs"] map_of_accumulateAll_empty [OF assms]
        numberOf_def amountFor_absent)

lemma sum_accumulateAll:
  assumes "\<forall>kv \<in> set kvs. fst kv \<notin> set objectPrototypeNames" "plainNumbers acc"
  shows "sum_list (map (\<lambda>p. numberOf (snd p)) (accumulateAll acc kvs)) =
           sum_list (map (\<lambda>p. numberOf (snd p)) acc) + sum_list (map snd kvs)"
  using assms
proof (induction kvs arbitrary: acc)
  case Nil
  then show ?case by (simp add: accumulateAll_Nil)
next
  case (Cons kv kvs)
  have pn: "plainNumbers (accumulate (fst kv) (snd kv) acc)"
    using Cons.prems(2) by (rule plainNumbers_accumulate)
  from Cons.prems(1) have rest: "\<forall>kv \<in> set kvs. fst kv \<notin> set objectPrototypeNames"
    and k: "fst kv \<notin> set objectPrototypeNames"
    by simp_all
  show ?case
    unfolding accumulateAll_Cons Cons.IH [OF rest pn]
    by (simp add: sum_accumulate_plain [OF k Cons.prems(2)])
qed

lemma keys_setProperty: "fst ` set (setProperty k v m) \<subseteq> insert k (fst ` set m)"
  by (simp add: setProperty_def AList.dom_update subset_insertI)

lemma keys_accumulate: "fst ` set (accumulate k a m) \<subseteq> insert k (fst ` set m)"
proof -
  define m1 where "m1 = (case getProperty m k of
                       Undefined \<Rightarrow> setProperty k (JNumber 0) m
                     | Own v \<Rightarrow> if v = JNumber 0 then setProperty k (JNumber 0) m else m
                     | Inherited \<Rightarrow> m)"
  have m1: "fst ` set m1 \<subseteq> insert k (fst ` set m)"
    unfolding m1_def using keys_setProperty [of k "JNumber 0" m]
    by (cases "getProperty m k") auto
  have step: "fst ` set (setProperty k v m1) \<subseteq> insert k (fst ` set m)" for v
    using keys_setProperty [of k v m1] m1 by blast
  have "accumulate k a m =
          (case getProperty m1 k of
             Undefined \<Rightarrow> m1
           | Own v \<Rightarrow>
               (case v of
                  JNumber x \<Rightarrow> setProperty k (JNumber (x + a)) m1
                | JString n appended \<Rightarrow> setProperty k (JString n (appended @ [a])) m1)
           | Inherited \<Rightarrow> setProperty k (JString k [a]) m1)"
    by (simp only: accumulate_def m1_def Let_def)
  also have "fst ` set \<dots> \<subseteq> insert k (fst ` set m)"
    using m1 step by (simp split: property.splits jsvalue.splits)
  finally show ?thesis .
qed

lemma keys_accumulateAll:
  "fst ` set (accumulateAll acc kvs) \<subseteq> fst ` set acc \<union> fst ` set kvs"
proof (induction kvs arbitrary: acc)
  case Nil
  then show ?case by (simp add: accumulateAll_Nil)
next
  case (Cons kv kvs)
  show ?case
    unfolding accumulateAll_Cons
    using Cons.IH [of "accumulate (fst kv) (snd kv) acc"] keys_accumulate [of "fst kv" "snd kv" acc]
    by auto
qed

lemma numbers_accumulateAll:
  assumes "\<forall>kv \<in> set kvs. fst kv \<notin> set objectPrototypeNames"
  shows "map snd (accumulateAll [] kvs)
           = map JNumber (map (\<lambda>p. numberOf (snd p)) (accumulateAll [] kvs))"
proof -
  have pn: "plainNumbers (accumulateAll [] kvs)"
    by (rule plainNumbers_accumulateAll) simp
  have "snd p = JNumber (numberOf (snd p))" if "p \<in> set (accumulateAll [] kvs)" for p
  proof -
    from that have "fst p \<in> fst ` set (accumulateAll [] kvs)" by (rule imageI)
    with keys_accumulateAll [of "[]" kvs] have "fst p \<in> fst ` set kvs" by auto
    with assms have plain: "fst p \<notin> set objectPrototypeNames" by auto
    from pn that have "case snd p of JNumber x \<Rightarrow> True
                       | JString n appended \<Rightarrow> fst p \<in> set objectPrototypeNames"
      by (simp add: plainNumbers_def list_all_iff)
    with plain show ?thesis
      by (cases "snd p") (simp_all add: numberOf_def)
  qed
  then show ?thesis by simp
qed

subsection \<open>The first loop of the aggregation\<close>

lemma grandTotal_foldl:
  "grandTotalPower (foldl (addEntry lp ap) acc es) =
     grandTotalPower acc + sum_list (map (\<lambda>e. lp (appliances e)) es)"
  by (induction es arbitrary: acc) (simp_all add: addEntry_def Let_def)

lemma totalEnergy_value:
  "totalEnergy (getAggregatedStats lp ap (Some es)) = sum_list (map (\<lambda>e. lp (appliances e)) es)"
  by (simp add: getAggregatedStats_def Let_def grandTotal_foldl)

lemma totalRegionPower_foldl:
  "totalRegionPower (foldl (addEntry lp ap) acc es) =
     accumulateAll (totalRegionPower acc) (regionAmounts lp es)"
  by (induction es arbitrary: acc)
     (simp_all add: addEntry_def Let_def accumulateAll_def regionAmounts_def)

lemma chartPairs_toChartItem [simp]: "chartPairs (map toChartItem m) = m"
  by (simp add: chartPairs_def toChartItem_def comp_def)

lemma weight_chartPairs: "map weight items = map snd (chartPairs items)"
  by (simp add: chartPairs_def comp_def)

lemma name_chartPairs: "map chartItem.name items = map fst (chartPairs items)"
  by (simp add: chartPairs_def comp_def)

lemma stateData_value:
  "stateData (getAggregatedStats lp ap (Some es)) =
     map toChartItem (objectEntries (accumulateAll [] (regionAmounts lp es)))"
  by (simp add: getAggregatedStats_def Let_def totalRegionPower_foldl)
     (simp add: accumulateAll_def regionAmounts_def)

lemma stateData_pairs:
  "chartPairs (stateData (getAggregatedStats lp ap (Some es))) =
     objectEntries (accumulateAll [] (regionAmounts lp es))"
  by (simp only: stateData_value chartPairs_toChartItem)

lemma distinct_regionTotals: "distinct (map fst (accumulateAll [] kvs))"
  by (rule distinct_accumulateAll) simp

lemma map_of_stateData:
  "map_of (chartPairs (stateData (getAggregatedStats lp ap (Some es)))) =
     map_of (accumulateAll [] (regionAmounts lp es))"
  by (simp only: stateData_pairs map_of_objectEntries [OF distinct_regionTotals])

lemma fst_regionAmounts: "fst ` set (regionAmounts lp es) = regionNameOf ` set es"
  by (auto simp: regionAmounts_def image_iff)

lemma snd_regionAmounts: "map snd (regionAmounts lp es) = map (\<lambda>e. lp (appliances e)) es"
  by (simp add: regionAmounts_def comp_def)

lemma amountFor_regionAmounts:
  "amountFor n (regionAmounts lp es) =
     (\<Sum>e\<leftarrow>filter (\<lambda>e. regionNameOf e = n) es. lp (appliances e))"
  by (induction es) (simp_all add: regionAmounts_def)

lemma plain_names:
  "''Unknown'' \<notin> set objectPrototypeNames" "[] \<notin> set objectPrototypeNames"
  by (simp_all add: objectPrototypeNames_def)

lemma bucket_value:
  assumes "n \<notin> set objectPrototypeNames"
  shows "map_of (chartPairs (stateData (getAggregatedStats lp ap (Some es)))) n =
     (if n \<in> regionNameOf ` set es
      then Some (JNumber (foldl (+) 0 (map (\<lambda>e. lp (appliances e))
                                          (filter (\<lambda>e. regionNameOf e = n) es))))
      else None)"
  by (simp only: map_of_stateData map_of_accumulateAll_empty [OF assms] fst_regionAmounts
        amountFor_regionAmounts foldl_add_0)

lemma serverLocationPower_sydneyHome: "serverLocationPower (appliances sydneyHome) = 3000"
  by (simp add: serverLocationPower_def getLocationPower_def getAppliancePower_def
        sydneyHome_def numberOr0_def ApplianceTypeModel_types_def heaterType_def)

lemma serverLocationPower_farAwayHome: "serverLocationPower (appliances farAwayHome) = 600"
  by (simp add: serverLocationPower_def getLocationPower_def getAppliancePower_def
        farAwayHome_def numberOr0_def ApplianceTypeModel_types_def lampType_def)

lemma serverLocationPower_noRegionHome: "serverLocationPower (appliances noRegionHome) = 300"
  by (simp add: serverLocationPower_def getLocationPower_def getAppliancePower_def
        noRegionHome_def numberOr0_def ApplianceTypeModel_types_def lampType_def)

lemma serverLocationPower_protoHome: "serverLocationPower (appliances protoHome) = 3000"
  by (simp add: serverLocationPower_def getLocationPower_def getAppliancePower_def
        protoHome_def numberOr0_def ApplianceTypeModel_types_def heaterType_def)

lemma serverLocationPower_constructorHome: "serverLocationPower (appliances constructorHome) = 600"
  by (simp add: serverLocationPower_def getLocationPower_def getAppliancePower_def
        constructorHome_def numberOr0_def ApplianceTypeModel_types_def lampType_def)

lemma example_region_names:
  "regionNameOf sydneyHome = ''NSW''" "regionNameOf farAwayHome = ''ZZZ''"
  "regionNameOf noRegionHome = ''Unknown''" "regionNameOf protoHome = ''__proto__''"
  "regionNameOf constructorHome = ''constructor''"
  by (simp_all add: regionNameOf_def sydneyHome_def farAwayHome_def noRegionHome_def
        protoHome_def constructorHome_def)

lemma arrayIndex_examples:
  "arrayIndex ''NSW'' = None" "arrayIndex ''Unknown'' = None" "arrayIndex ''ZZZ'' = None"
  "arrayIndex ''constructor'' = None" "arrayIndex ''7'' = Some 7" "arrayIndex ''07'' = None"
  by (simp_all add: arrayIndex_def digitValues_def)

text \<open>
  Claim C1: for every entry set, \<open>totalEnergy\<close> of the aggregation is the sum over the
  entries of the location power of their appliances; it is \<open>0\<close> for the empty set, and it
  does not depend on the regions of the entries nor on the per-appliance function that
  feeds the appliance-type buckets.
\<close>

theorem aggregate_totalEnergy:
  "totalEnergy (getAggregatedStats locationPower appliancePower (Some es))
     = (\<Sum>e\<leftarrow>es. locationPower (appliances e))
   \<and> totalEnergy (getAggregatedStats locationPower appliancePower (Some [])) = 0
   \<and> totalEnergy (getAggregatedStats locationPower appliancePower None) = 0
   \<and> totalEnergy (getAggregatedStats locationPower appliancePower
                    (Some (map (\<lambda>e. e\<lparr>region := newRegion e\<rparr>) es)))
       = totalEnergy (getAggregatedStats locationPower appliancePower (Some es))
   \<and> totalEnergy (getAggregatedStats locationPower otherAppliancePower (Some es))
       = totalEnergy (getAggregatedStats locationPower appliancePower (Some es))"
  by (simp add: totalEnergy_value comp_def) (simp add: getAggregatedStats_def)

theorem aggregate_totalEnergy_witness:
  "totalEnergy (getAggregatedStats serverLocationPower serverAppliancePower
                  (Some [sydneyHome, farAwayHome])) = 3600"
  using aggregate_totalEnergy [of serverLocationPower serverAppliancePower
          "[sydneyHome, farAwayHome]"]
  by (simp add: serverLocationPower_sydneyHome serverLocationPower_farAwayHome)

lemma accumulate_proto: "accumulate ''__proto__'' a m = m"
  by (simp add: accumulate_def getProperty_def setProperty_def objectPrototypeNames_def
           split: option.splits jsvalue.splits)

lemma regionTotals_example_proto:
  "accumulateAll [] (regionAmounts serverLocationPower [sydneyHome, protoHome])
     = [(''NSW'', JNumber 3000)]"
  by (simp add: accumulateAll_def regionAmounts_def example_region_names accumulate_proto
        serverLocationPower_sydneyHome serverLocationPower_protoHome)
     (simp add: accumulate_def getProperty_def setProperty_def objectPrototypeNames_def)


lemma in_image_eq: "(n \<in> f ` A) = (\<exists>e \<in> A. f e = n)"
  by auto

lemma regionNameOf_eq:
  "n \<noteq> [] \<Longrightarrow> n \<noteq> ''Unknown'' \<Longrightarrow> regionNameOf e = n \<longleftrightarrow> region e = n"
  "regionNameOf e = ''Unknown'' \<longleftrightarrow> region e = [] \<or> region e = ''Unknown''"
  "regionNameOf e \<noteq> []"
  by (auto simp: regionNameOf_def)

lemma regionNameOf_plain:
  "region e \<notin> set objectPrototypeNames \<Longrightarrow> regionNameOf e \<notin> set objectPrototypeNames"
  using plain_names by (simp add: regionNameOf_def)

lemma weights_sum:
  assumes "\<forall>e \<in> set es. region e \<notin> set objectPrototypeNames"
  shows "\<exists>ws. map weight (stateData (getAggregatedStats lp ap (Some es))) = map JNumber ws
              \<and> foldl (+) 0 ws = totalEnergy (getAggregatedStats lp ap (Some es))"
proof -
  define T where "T = accumulateAll [] (regionAmounts lp es)"
  have plain: "\<forall>kv \<in> set (regionAmounts lp es). fst kv \<notin> set objectPrototypeNames"
    using assms by (auto simp: regionAmounts_def regionNameOf_plain)
  have num: "snd p = JNumber (numberOf (snd p))" if "p \<in> set (objectEntries T)" for p
  proof -
    from that have "p \<in> set T" by (simp only: set_objectEntries)
    then obtain i where i: "i < length T" "T ! i = p" by (auto simp: in_set_conv_nth)
    have "map snd T ! i = map JNumber (map (\<lambda>p. numberOf (snd p)) T) ! i"
      using numbers_accumulateAll [OF plain] by (simp only: T_def)
    with i show ?thesis by simp
  qed
  have "map weight (stateData (getAggregatedStats lp ap (Some es))) = map snd (objectEntries T)"
    by (simp only: weight_chartPairs stateData_pairs T_def)
  also have "\<dots> = map JNumber (map (\<lambda>p. numberOf (snd p)) (objectEntries T))"
    using num by simp
  finally have w: "map weight (stateData (getAggregatedStats lp ap (Some es)))
                     = map JNumber (map (\<lambda>p. numberOf (snd p)) (objectEntries T))" .
  have "foldl (+) 0 (map (\<lambda>p. numberOf (snd p)) (objectEntries T))
          = sum_list (map (\<lambda>p. numberOf (snd p)) T)"
    by (simp only: foldl_add_0 sum_objectEntries)
  also have "\<dots> = sum_list (map snd (regionAmounts lp es))"
    unfolding T_def by (simp add: sum_accumulateAll [OF plain])
  also have "\<dots> = totalEnergy (getAggregatedStats lp ap (Some es))"
    by (simp only: snd_regionAmounts totalEnergy_value)
  finally show ?thesis using w by blast
qed


lemma example_regions:
  "region sydneyHome = ''NSW''" "region hobartHome = ''TAS''" "region noRegionHome = []"
  "region farAwayHome = ''ZZZ''" "region protoHome = ''__proto__''"
  "region constructorHome = ''constructor''"
  by (simp_all add: sydneyHome_def hobartHome_def noRegionHome_def farAwayHome_def protoHome_def
        constructorHome_def)


subsection \<open>The second loop of the aggregation\<close>

lemma addRegion_accumulateAll:
  "addRegion trp acc r = accumulateAll acc (sourceAmounts trp r)"
proof -
  have inner: "foldl (\<lambda>t (sourceName, percentage).
                 accumulate (capitalize sourceName) (P * (orElse (Some percentage) 0 / 100)) t) acc sps
             = accumulateAll acc (map (\<lambda>sp. (capitalize (fst sp), P * (snd sp / 100))) sps)"
    for P sps
    by (induction sps arbitrary: acc)
       (simp_all add: accumulateAll_def orElse_Some_0 split_beta)
  show ?thesis
  proof (cases "map_of trp (RegionPowerModel.name r)")
    case None
    then show ?thesis
      by (simp add: addRegion_def sourceAmounts_def getProperty_def numberAt_def accumulateAll_Nil)
  next
    case (Some v)
    show ?thesis
    proof (cases v)
      case (JNumber x)
      with Some have g: "getProperty trp (RegionPowerModel.name r) = Own (JNumber x)"
        and n: "numberAt trp (RegionPowerModel.name r) = x"
        by (simp_all add: getProperty_def numberAt_def numberOf_def)
      show ?thesis
      proof (cases "0 < x")
        case True
        then show ?thesis
          unfolding addRegion_def sourceAmounts_def g n inner
          by (simp only: property.case jsvalue.case if_True)
      next
        case False
        then show ?thesis
          unfolding addRegion_def sourceAmounts_def g n
          by (simp only: property.case jsvalue.case if_False accumulateAll_Nil)
      qed
    next
      case (JString s appended)
      with Some show ?thesis
        by (simp add: addRegion_def sourceAmounts_def getProperty_def numberAt_def numberOf_def
              accumulateAll_Nil)
    qed
  qed
qed

lemma foldl_addRegion:
  "foldl (addRegion trp) acc rs = accumulateAll acc (concat (map (sourceAmounts trp) rs))"
  by (induction rs arbitrary: acc) (simp_all add: accumulateAll_def addRegion_accumulateAll)

lemma sum_filter_objectEntries:
  "sum_list (map snd (filter P (objectEntries sps))) = sum_list (map snd (filter P sps))"
  for sps :: "(string \<times> real) list"
proof -
  have "mset (filter P (objectEntries sps)) = mset (filter P sps)"
    by (simp only: mset_filter mset_objectEntries)
  then have "sum_mset (mset (map snd (filter P (objectEntries sps))))
               = sum_mset (mset (map snd (filter P sps)))"
    by (simp only: mset_map)
  then show ?thesis by (simp only: sum_mset_sum_list)
qed

lemma amountFor_sourceAmounts:
  "amountFor n (sourceAmounts trp r) =
     (let P = numberAt trp (RegionPowerModel.name r)
      in if P > 0 then P * mixShare r n / 100 else 0)"
proof (cases "0 < numberAt trp (RegionPowerModel.name r)")
  case True
  then show ?thesis
    unfolding sourceAmounts_def Let_def mixShare_def
    by (simp only: if_True amountFor_scaled sum_filter_objectEntries)
next
  case False
  then show ?thesis
    unfolding sourceAmounts_def Let_def by (simp only: if_False amountFor_simps)
qed

lemma sourceAmounts_idle:
  "\<not> 0 < numberAt trp (RegionPowerModel.name r) \<Longrightarrow> sourceAmounts trp r = []"
  by (simp add: sourceAmounts_def)

lemma foldl_addRegion_idle:
  "\<forall>r \<in> set rs. \<not> 0 < numberAt trp (RegionPowerModel.name r) \<Longrightarrow>
     foldl (addRegion trp) acc rs = acc"
  by (induction rs arbitrary: acc)
     (simp_all add: addRegion_accumulateAll sourceAmounts_idle accumulateAll_Nil)

lemma sourceData_value:
  "sourceData (getAggregatedStats lp ap (Some es)) =
     map toChartItem
       (objectEntries
          (foldl (addRegion (accumulateAll [] (regionAmounts lp es))) [] RegionPowerModel_data))"
proof (cases "es = []")
  case True
  have "foldl (addRegion []) [] RegionPowerModel_data = []"
    by (rule foldl_addRegion_idle) (simp add: numberAt_def)
  with True show ?thesis
    by (simp add: getAggregatedStats_def accumulateAll_def regionAmounts_def)
next
  case False
  then show ?thesis
    by (simp add: getAggregatedStats_def Let_def totalRegionPower_foldl)
qed

lemma table_names_plain:
  "r \<in> set RegionPowerModel_data \<Longrightarrow> RegionPowerModel.name r \<notin> set objectPrototypeNames"
  by (auto simp: RegionPowerModel_data_def objectPrototypeNames_def)

lemma table_sources_plain:
  "r \<in> set RegionPowerModel_data \<Longrightarrow> sp \<in> set (powerSources r) \<Longrightarrow>
     capitalize (fst sp) \<notin> set objectPrototypeNames"
  by (auto simp: RegionPowerModel_data_def objectPrototypeNames_def capitalize_def
        toUpperCaseChar_def)

lemma sourceAmounts_plain:
  assumes "kv \<in> set (concat (map (sourceAmounts trp) RegionPowerModel_data))"
  shows "fst kv \<notin> set objectPrototypeNames"
proof -
  from assms obtain r where r: "r \<in> set RegionPowerModel_data" and kv: "kv \<in> set (sourceAmounts trp r)"
    by auto
  from kv obtain sp where "sp \<in> set (powerSources r)" "fst kv = capitalize (fst sp)"
    by (auto simp: sourceAmounts_def set_objectEntries split: if_splits)
  with r show ?thesis by (simp add: table_sources_plain)
qed

lemma numberAt_all_plain:
  assumes "\<forall>kv \<in> set kvs. fst kv \<notin> set objectPrototypeNames"
  shows "numberAt (accumulateAll [] kvs) n = amountFor n kvs"
proof (cases "n \<in> set objectPrototypeNames")
  case False
  then show ?thesis by (rule numberAt_accumulateAll_empty)
next
  case True
  with assms have absent: "n \<notin> fst ` set kvs" by auto
  with keys_accumulateAll [of "[]" kvs] have "n \<notin> fst ` set (accumulateAll [] kvs)" by auto
  then have "map_of (accumulateAll [] kvs) n = None"
    by (simp add: map_of_eq_None_iff)
  with absent show ?thesis by (simp add: numberAt_def amountFor_absent)
qed

lemma numberAt_objectEntries:
  "distinct (map fst m) \<Longrightarrow> numberAt (objectEntries m) n = numberAt m n"
  by (simp add: numberAt_def map_of_objectEntries)

lemma regionWeight_amount:
  "n \<notin> set objectPrototypeNames \<Longrightarrow>
     regionWeight (getAggregatedStats lp ap (Some es)) n = amountFor n (regionAmounts lp es)"
  by (simp add: regionWeight_def numberAt_def map_of_stateData)
     (simp add: numberAt_accumulateAll_empty [unfolded numberAt_def])

lemma regionWeight_numberAt:
  "regionWeight (getAggregatedStats lp ap (Some es)) n
     = numberAt (accumulateAll [] (regionAmounts lp es)) n"
  by (simp add: regionWeight_def numberAt_def map_of_stateData)

lemma sourceWeight_formula:
  "sourceWeight (getAggregatedStats lp ap (Some es)) n =
     (\<Sum>r\<leftarrow>RegionPowerModel_data.
        let P = regionWeight (getAggregatedStats lp ap (Some es)) (RegionPowerModel.name r)
        in if P > 0 then P * mixShare r n / 100 else 0)"
proof -
  define T where "T = accumulateAll [] (regionAmounts lp es)"
  have "sourceWeight (getAggregatedStats lp ap (Some es)) n =
          numberAt (accumulateAll [] (concat (map (sourceAmounts T) RegionPowerModel_data))) n"
    by (simp only: sourceWeight_def sourceData_value chartPairs_toChartItem foldl_addRegion
          numberAt_objectEntries [OF distinct_regionTotals] T_def)
  also have "\<dots> = amountFor n (concat (map (sourceAmounts T) RegionPowerModel_data))"
    by (rule numberAt_all_plain) (simp add: sourceAmounts_plain)
  also have "\<dots> = (\<Sum>r\<leftarrow>RegionPowerModel_data. amountFor n (sourceAmounts T r))"
    by (simp only: amountFor_concat map_map comp_def)
  finally show ?thesis
    by (simp only: amountFor_sourceAmounts regionWeight_numberAt T_def)
qed

lemma regionTotals_proto:
  "accumulateAll [] (regionAmounts lp [protoHome]) = []"
  by (simp add: accumulateAll_def regionAmounts_def example_region_names accumulate_proto)

lemma regionTotals_constructor:
  "accumulateAll [] (regionAmounts serverLocationPower [constructorHome])
     = [(''constructor'', JString ''constructor'' [600])]"
  by (simp add: accumulateAll_def regionAmounts_def example_region_names
        serverLocationPower_constructorHome)
     (simp add: accumulate_def getProperty_def setProperty_def objectPrototypeNames_def)

text \<open>
  Claim C4, at the failing input: an entry whose region code is absent from the table adds
  its power to \<open>totalEnergy\<close> and to the region list, and nothing to the source list. For
  the store with the single entry of region code \<open>__proto__\<close> (3000 Wh), \<open>totalEnergy\<close> is
  3000 and the source list is empty, as the claim says, but the region list is empty too:
  the power of the entry is in no region bucket. For the store with the single entry of
  region code \<open>constructor\<close> (600 Wh), the region list has an item of that name whose
  weight is not a number but the text of the inherited function followed by \<open>600\<close>.
\<close>

theorem unknown_region_inherited_name:
  "totalEnergy (getAggregatedStats serverLocationPower serverAppliancePower (Some [protoHome]))
     = 3000
   \<and> stateData (getAggregatedStats serverLocationPower serverAppliancePower (Some [protoHome]))
     = []
   \<and> sourceData (getAggregatedStats serverLocationPower serverAppliancePower (Some [protoHome]))
     = []
   \<and> region protoHome = ''__proto__''
   \<and> totalEnergy (getAggregatedStats serverLocationPower serverAppliancePower
                    (Some [constructorHome])) = 600
   \<and> stateData (getAggregatedStats serverLocationPower serverAppliancePower
                  (Some [constructorHome]))
     = [\<lparr>name = ''constructor'', weight = JString ''constructor'' [600]\<rparr>]
   \<and> region constructorHome = ''constructor''"
proof -
  have "foldl (addRegion []) [] RegionPowerModel_data = []"
    by (rule foldl_addRegion_idle) (simp add: numberAt_def)
  then show ?thesis
    by (simp add: totalEnergy_value stateData_value sourceData_value regionTotals_proto
          regionTotals_constructor serverLocationPower_protoHome
          serverLocationPower_constructorHome example_regions)
       (simp add: objectEntries_def arrayIndex_examples toChartItem_def)
qed

lemma Unknown_not_in_table:
  "''Unknown'' \<notin> RegionPowerModel.name ` set RegionPowerModel_data"
  by (simp add: RegionPowerModel_data_def)

lemma regionNameOf_not_in_table:
  "region e \<notin> RegionPowerModel.name ` set RegionPowerModel_data \<Longrightarrow>
     regionNameOf e \<notin> RegionPowerModel.name ` set RegionPowerModel_data"
  using Unknown_not_in_table by (simp add: regionNameOf_def)

lemma sourceAmounts_cong:
  "numberAt trp (RegionPowerModel.name r) = numberAt trp' (RegionPowerModel.name r) \<Longrightarrow>
     sourceAmounts trp r = sourceAmounts trp' r"
  by (simp add: sourceAmounts_def)

lemma sourceData_unknown_region:
  assumes "region e \<notin> RegionPowerModel.name ` set RegionPowerModel_data"
  shows "sourceData (getAggregatedStats lp ap (Some (es1 @ e # es2))) =
         sourceData (getAggregatedStats lp ap (Some (es1 @ es2)))"
proof -
  have "sourceAmounts (accumulateAll [] (regionAmounts lp (es1 @ e # es2))) r =
        sourceAmounts (accumulateAll [] (regionAmounts lp (es1 @ es2))) r"
    if r: "r \<in> set RegionPowerModel_data" for r
  proof (rule sourceAmounts_cong)
    have ne: "regionNameOf e \<noteq> RegionPowerModel.name r"
      using regionNameOf_not_in_table [OF assms] r by (metis imageI)
    have plain: "RegionPowerModel.name r \<notin> set objectPrototypeNames"
      using r by (rule table_names_plain)
    show "numberAt (accumulateAll [] (regionAmounts lp (es1 @ e # es2))) (RegionPowerModel.name r) =
          numberAt (accumulateAll [] (regionAmounts lp (es1 @ es2))) (RegionPowerModel.name r)"
      using ne by (simp add: numberAt_accumulateAll_empty [OF plain] regionAmounts_def)
  qed
  then have "map (sourceAmounts (accumulateAll [] (regionAmounts lp (es1 @ e # es2))))
               RegionPowerModel_data =
             map (sourceAmounts (accumulateAll [] (regionAmounts lp (es1 @ es2))))
               RegionPowerModel_data"
    by simp
  then show ?thesis
    by (simp only: sourceData_value foldl_addRegion)
qed

lemma totalEnergy_insert:
  "totalEnergy (getAggregatedStats lp ap (Some (es1 @ e # es2))) =
     totalEnergy (getAggregatedStats lp ap (Some (es1 @ es2))) + lp (appliances e)"
  by (simp add: totalEnergy_value)

lemma regionWeight_insert:
  "regionNameOf e \<notin> set objectPrototypeNames \<Longrightarrow>
   regionWeight (getAggregatedStats lp ap (Some (es1 @ e # es2))) (regionNameOf e) =
     regionWeight (getAggregatedStats lp ap (Some (es1 @ es2))) (regionNameOf e) + lp (appliances e)"
  by (simp add: regionWeight_amount regionAmounts_def)

lemma sourceData_idle:
  assumes "\<forall>r \<in> set RegionPowerModel_data.
             \<not> 0 < regionWeight (getAggregatedStats lp ap (Some es)) (RegionPowerModel.name r)"
  shows "sourceData (getAggregatedStats lp ap (Some es)) = []"
proof -
  have "foldl (addRegion (accumulateAll [] (regionAmounts lp es))) [] RegionPowerModel_data = []"
    using assms by (intro foldl_addRegion_idle) (simp add: regionWeight_numberAt)
  then show ?thesis by (simp only: sourceData_value objectEntries_Nil list.map)
qed

lemma mixShare_missing:
  assumes "n \<notin> capitalize ` fst ` set (powerSources r)"
  shows "mixShare r n = 0"
proof -
  have "filter (\<lambda>sp. capitalize (fst sp) = n) (powerSources r) = []"
    using assms by (auto simp: filter_empty_conv)
  then show ?thesis by (simp add: mixShare_def)
qed

text \<open>
  What holds of the decomposition into sources for every store: the number under a source
  is the sum, over the regions of the table whose accumulated total \<open>P\<close> is positive, of
  \<open>P \<times> percentage / 100\<close> for that source in the region's mix, a source missing from a mix
  adding \<open>0\<close>; when no region of the table has a positive total the source list is empty;
  an entry whose region code is not in the table adds its power to \<open>totalEnergy\<close> and
  leaves the source list as it is without that entry, and it adds its power to its region
  bucket when its bucket name is not the name of an inherited property.
\<close>

lemma decomposition_into_sources:
  "sourceWeight (getAggregatedStats locationPower appliancePower (Some es)) n =
     (\<Sum>r\<leftarrow>RegionPowerModel_data.
        let P = regionWeight (getAggregatedStats locationPower appliancePower (Some es))
                  (RegionPowerModel.name r)
        in if P > 0 then P * mixShare r n / 100 else 0)
   \<and> (n \<notin> capitalize ` fst ` set (powerSources r) \<longrightarrow> mixShare r n = 0)
   \<and> ((\<forall>r \<in> set RegionPowerModel_data.
          \<not> 0 < regionWeight (getAggregatedStats locationPower appliancePower (Some es))
                  (RegionPowerModel.name r))
       \<longrightarrow> sourceData (getAggregatedStats locationPower appliancePower (Some es)) = [])
   \<and> (region e \<notin> RegionPowerModel.name ` set RegionPowerModel_data
       \<longrightarrow> sourceData (getAggregatedStats locationPower appliancePower (Some (es1 @ e # es2)))
             = sourceData (getAggregatedStats locationPower appliancePower (Some (es1 @ es2)))
           \<and> totalEnergy (getAggregatedStats locationPower appliancePower (Some (es1 @ e # es2)))
             = totalEnergy (getAggregatedStats locationPower appliancePower (Some (es1 @ es2)))
               + locationPower (appliances e))
   \<and> (regionNameOf e \<notin> set objectPrototypeNames
       \<longrightarrow> regionWeight (getAggregatedStats locationPower appliancePower (Some (es1 @ e # es2)))
               (regionNameOf e)
             = regionWeight (getAggregatedStats locationPower appliancePower (Some (es1 @ es2)))
                 (regionNameOf e)
               + locationPower (appliances e))"
proof (intro conjI impI)
  assume "n \<notin> capitalize ` fst ` set (powerSources r)"
  then show "mixShare r n = 0" by (rule mixShare_missing)
next
  assume "\<forall>r \<in> set RegionPowerModel_data.
          \<not> 0 < regionWeight (getAggregatedStats locationPower appliancePower (Some es))
                  (RegionPowerModel.name r)"
  then show "sourceData (getAggregatedStats locationPower appliancePower (Some es)) = []"
    by (rule sourceData_idle)
next
  assume "region e \<notin> RegionPowerModel.name ` set RegionPowerModel_data"
  then show "sourceData (getAggregatedStats locationPower appliancePower (Some (es1 @ e # es2)))
             = sourceData (getAggregatedStats locationPower appliancePower (Some (es1 @ es2)))"
    by (rule sourceData_unknown_region)
next
  assume "regionNameOf e \<notin> set objectPrototypeNames"
  then show "regionWeight (getAggregatedStats locationPower appliancePower (Some (es1 @ e # es2)))
               (regionNameOf e)
             = regionWeight (getAggregatedStats locationPower appliancePower (Some (es1 @ es2)))
                 (regionNameOf e)
               + locationPower (appliances e)"
    by (rule regionWeight_insert)
qed (simp_all only: sourceWeight_formula totalEnergy_insert)

subsection \<open>Sorting with a comparator\<close>

lemma arraySort_Nil [simp]: "arraySort c [] = []"
  by (simp add: arraySort_def)

lemma arraySort_Cons [simp]: "arraySort c (x # xs) = insertSorted c x (arraySort c xs)"
  by (simp add: arraySort_def)

lemma mset_insertSorted [simp]: "mset (insertSorted c x ys) = add_mset x (mset ys)"
  by (induction ys) simp_all

lemma mset_arraySort [simp]: "mset (arraySort c xs) = mset xs"
  by (induction xs) simp_all

lemma set_insertSorted [simp]: "set (insertSorted c x ys) = insert x (set ys)"
  by (induction ys) auto

lemma set_arraySort [simp]: "set (arraySort c xs) = set xs"
  by (induction xs) simp_all

lemma length_arraySort [simp]: "length (arraySort c xs) = length xs"
  using mset_arraySort [of c xs] by (metis size_mset)

lemma insertSorted_map:
  "\<forall>y \<in> set ys. c' (g x) (g y) = c x y \<Longrightarrow>
     insertSorted c' (g x) (map g ys) = map g (insertSorted c x ys)"
  by (induction ys) (simp_all add: sortCompare_def)

lemma arraySort_map:
  "\<forall>x \<in> set xs. \<forall>y \<in> set xs. c' (g x) (g y) = c x y \<Longrightarrow>
     arraySort c' (map g xs) = map g (arraySort c xs)"
proof (induction xs)
  case Nil
  then show ?case by simp
next
  case (Cons x xs)
  then have "arraySort c' (map g xs) = map g (arraySort c xs)" by simp
  moreover have "\<forall>y \<in> set (arraySort c xs). c' (g x) (g y) = c x y"
    using Cons.prems by simp
  ultimately show ?case by (simp add: insertSorted_map)
qed

lemma sorted_insertSorted:
  assumes total: "\<And>a b. a \<in> A \<Longrightarrow> b \<in> A \<Longrightarrow> sortCompare c a b \<le> 0 \<or> sortCompare c b a \<le> 0"
    and trans: "\<And>a b d. a \<in> A \<Longrightarrow> b \<in> A \<Longrightarrow> d \<in> A \<Longrightarrow>
                  sortCompare c a b \<le> 0 \<Longrightarrow> sortCompare c b d \<le> 0 \<Longrightarrow> sortCompare c a d \<le> 0"
    and x: "x \<in> A"
    and "set ys \<subseteq> A" "sorted_wrt (\<lambda>a b. sortCompare c a b \<le> 0) ys"
  shows "sorted_wrt (\<lambda>a b. sortCompare c a b \<le> 0) (insertSorted c x ys)"
  using assms(4,5)
proof (induction ys)
  case Nil
  then show ?case by simp
next
  case (Cons y ys)
  from Cons.prems have y: "y \<in> A" and ys: "set ys \<subseteq> A" by simp_all
  show ?case
  proof (cases "sortCompare c x y \<le> 0")
    case True
    have "sortCompare c x z \<le> 0" if "z \<in> set ys" for z
    proof -
      from that Cons.prems(2) have "sortCompare c y z \<le> 0" by simp
      moreover from that ys have "z \<in> A" by auto
      ultimately show ?thesis using trans [OF x y _ True] by simp
    qed
    with True Cons.prems(2) show ?thesis by simp
  next
    case False
    with total [OF x y] have "sortCompare c y x \<le> 0" by simp
    with False Cons.prems(2) Cons.IH [OF ys] show ?thesis by auto
  qed
qed

lemma sorted_arraySort:
  assumes "\<And>a b. a \<in> A \<Longrightarrow> b \<in> A \<Longrightarrow> sortCompare c a b \<le> 0 \<or> sortCompare c b a \<le> 0"
    and "\<And>a b d. a \<in> A \<Longrightarrow> b \<in> A \<Longrightarrow> d \<in> A \<Longrightarrow>
                  sortCompare c a b \<le> 0 \<Longrightarrow> sortCompare c b d \<le> 0 \<Longrightarrow> sortCompare c a d \<le> 0"
    and "set xs \<subseteq> A"
  shows "sorted_wrt (\<lambda>a b. sortCompare c a b \<le> 0) (arraySort c xs)"
  using assms(3)
proof (induction xs)
  case Nil
  then show ?case by simp
next
  case (Cons x xs)
  then have xA: "x \<in> A" and sub: "set (arraySort c xs) \<subseteq> A"
    and srt: "sorted_wrt (\<lambda>a b. sortCompare c a b \<le> 0) (arraySort c xs)"
    by simp_all
  show ?case
    unfolding arraySort_Cons
  proof (rule sorted_insertSorted [where A = A])
    show "x \<in> A" by (rule xA)
    show "set (arraySort c xs) \<subseteq> A" by (rule sub)
    show "sorted_wrt (\<lambda>a b. sortCompare c a b \<le> 0) (arraySort c xs)" by (rule srt)
  next
    fix a b assume "a \<in> A" "b \<in> A"
    then show "sortCompare c a b \<le> 0 \<or> sortCompare c b a \<le> 0" by (rule assms(1))
  next
    fix a b d
    assume "a \<in> A" "b \<in> A" "d \<in> A" "sortCompare c a b \<le> 0" "sortCompare c b d \<le> 0"
    then show "sortCompare c a d \<le> 0" by (rule assms(2))
  qed
qed

lemma filter_insertSorted_tie:
  assumes "\<And>y. k y = k x \<Longrightarrow> sortCompare c x y \<le> 0"
  shows "filter (\<lambda>y. k y = v) (insertSorted c x ys) =
           (if k x = v then x # filter (\<lambda>y. k y = v) ys else filter (\<lambda>y. k y = v) ys)"
  using assms by (induction ys) auto

lemma filter_arraySort_tie:
  assumes "\<And>x y. k y = k x \<Longrightarrow> sortCompare c x y \<le> 0"
  shows "filter (\<lambda>y. k y = v) (arraySort c xs) = filter (\<lambda>y. k y = v) xs"
  by (induction xs) (simp_all add: filter_insertSorted_tie assms)

lemma insertSorted_front:
  "\<forall>y \<in> set ys. sortCompare c x y \<le> 0 \<Longrightarrow> insertSorted c x ys = x # ys"
  by (cases ys) simp_all

lemma arraySort_ties:
  "\<forall>x \<in> set xs. \<forall>y \<in> set xs. sortCompare c x y \<le> 0 \<Longrightarrow> arraySort c xs = xs"
  by (induction xs) (simp_all add: insertSorted_front)

subsection \<open>The comparator of the leaderboard\<close>

lemma compare_numbers_HIGH:
  assumes "sortValue a = Num u" "sortValue b = Num v"
  shows "sortCompare (\<lambda>a b. compareEntries a b ''HIGH'' f) a b \<le> 0 \<longleftrightarrow>
           v < u \<or> (u = v \<and> (f = ''ANY'' \<or> totalPower b \<le> totalPower a))"
  using assms by (auto simp: sortCompare_def compareEntries_def numSubtract_def Let_def)

lemma compare_numbers_other:
  assumes "sortValue a = Num u" "sortValue b = Num v" "so \<noteq> ''HIGH''"
  shows "sortCompare (\<lambda>a b. compareEntries a b so f) a b \<le> 0 \<longleftrightarrow>
           u < v \<or> (u = v \<and> (f = ''ANY'' \<or> totalPower a \<le> totalPower b))"
  using assms by (auto simp: sortCompare_def compareEntries_def numSubtract_def Let_def)

lemma compare_NaN:
  "sortValue a = NaN \<Longrightarrow> sortCompare (\<lambda>a b. compareEntries a b so f) a b = 0"
  "sortValue b = NaN \<Longrightarrow> sortCompare (\<lambda>a b. compareEntries a b so f) a b = 0"
  by (auto simp: sortCompare_def compareEntries_def numSubtract_def Let_def split: jsnum.splits)

subsection \<open>Scores\<close>

lemma regionMix_unknown:
  "code \<notin> RegionPowerModel.name ` set RegionPowerModel_data \<Longrightarrow> regionMix code = []"
proof -
  assume "code \<notin> RegionPowerModel.name ` set RegionPowerModel_data"
  then have "find (\<lambda>r. RegionPowerModel.name r = code) RegionPowerModel_data = None"
    by (auto simp: find_None_iff)
  then show ?thesis by (simp add: regionMix_def)
qed

lemma share_missing: "s \<notin> fst ` set mix \<Longrightarrow> share mix s = 0"
  by (simp add: share_def map_of_eq_None_iff [THEN iffD2])

lemma regionMix_cases:
  "regionMix code = [] \<or> regionMix code \<in> powerSources ` set RegionPowerModel_data"
  by (auto simp: regionMix_def find_Some_iff split: option.splits)

lemma table_share_bounds:
  "mix \<in> powerSources ` set RegionPowerModel_data \<Longrightarrow> 0 \<le> share mix s \<and> share mix s \<le> 100"
  by (auto simp: RegionPowerModel_data_def share_def)

lemma table_green_bounds:
  "mix \<in> powerSources ` set RegionPowerModel_data \<Longrightarrow>
     0 \<le> greenShareFraction mix \<and> greenShareFraction mix \<le> 1"
  by (auto simp: RegionPowerModel_data_def share_def greenShareFraction_def)

lemma share_bounds: "0 \<le> share (regionMix code) s \<and> share (regionMix code) s \<le> 100"
  using regionMix_cases [of code] table_share_bounds [of "regionMix code" s]
  by (auto simp: share_def)

lemma green_bounds:
  "0 \<le> greenShareFraction (regionMix code) \<and> greenShareFraction (regionMix code) \<le> 1"
  using regionMix_cases [of code] table_green_bounds [of "regionMix code"]
  by (auto simp: share_def greenShareFraction_def)

lemma table_mix_plain:
  "mix \<in> powerSources ` set RegionPowerModel_data \<Longrightarrow> k \<in> set objectPrototypeNames \<Longrightarrow>
     map_of mix k = None"
  by (auto simp: RegionPowerModel_data_def objectPrototypeNames_def)

lemma regionMix_plain:
  "k \<in> set objectPrototypeNames \<Longrightarrow> map_of (regionMix code) k = None"
  using regionMix_cases [of code] table_mix_plain [of "regionMix code" k] by auto

lemma read_regionMix:
  "numberOrZero (getProperty (regionMix code) k) =
     (if k \<in> set objectPrototypeNames then NaN else Num (share (regionMix code) k))"
  by (auto simp: numberOrZero_def getProperty_def share_def regionMix_plain split: option.splits)

lemma green_names_plain:
  "''solar'' \<notin> set objectPrototypeNames" "''wind'' \<notin> set objectPrototypeNames"
  "''hydro'' \<notin> set objectPrototypeNames"
  by (simp_all add: objectPrototypeNames_def)

lemma calculateSortValues_value:
  "calculateSortValues lp e f =
     (if f = ''GREEN'' then Num (greenShareFraction (regionMix (region e)))
      else if f \<noteq> ''ANY''
      then (if toLowerCase f \<in> set objectPrototypeNames then NaN
            else Num (share (regionMix (region e)) (toLowerCase f) / 100))
      else Num (lp (appliances e)),
      lp (appliances e))"
proof -
  have "calculateSortValues lp e f =
     (if f = ''GREEN''
      then numDivide
             (numAdd (numAdd (numberOrZero (getProperty (regionMix (region e)) ''solar''))
                             (numberOrZero (getProperty (regionMix (region e)) ''wind'')))
                     (numberOrZero (getProperty (regionMix (region e)) ''hydro'')))
             100
      else if f \<noteq> ''ANY''
      then numDivide (numberOrZero (getProperty (regionMix (region e)) (toLowerCase f))) 100
      else Num (lp (appliances e)),
      lp (appliances e))"
    by (simp add: calculateSortValues_def Let_def regionMix_def)
  then show ?thesis
    by (simp add: read_regionMix green_names_plain numAdd_def numDivide_def
          greenShareFraction_def)
qed

lemma withSortValues_scores:
  "sortValue (withSortValues lp f e) = fst (calculateSortValues lp e f)"
  "totalPower (withSortValues lp f e) = snd (calculateSortValues lp e f)"
  by (simp_all add: withSortValues_def Let_def)

lemma sortValue_number:
  assumes "f = ''GREEN'' \<or> f = ''ANY'' \<or> toLowerCase f \<notin> set objectPrototypeNames"
  shows "\<exists>v. sortValue (withSortValues lp f e) = Num v"
proof -
  consider "f = ''GREEN''" | "f = ''ANY''"
    | "f \<noteq> ''GREEN''" "f \<noteq> ''ANY''" "toLowerCase f \<notin> set objectPrototypeNames"
    using assms by blast
  then show ?thesis
  proof cases
    case 1
    then have "sortValue (withSortValues lp f e) = Num (greenShareFraction (regionMix (region e)))"
      by (simp add: withSortValues_scores calculateSortValues_value)
    then show ?thesis by (rule exI)
  next
    case 2
    then have "sortValue (withSortValues lp f e) = Num (lp (appliances e))"
      by (simp add: withSortValues_scores calculateSortValues_value)
    then show ?thesis by (rule exI)
  next
    case 3
    then have "sortValue (withSortValues lp f e)
                 = Num (share (regionMix (region e)) (toLowerCase f) / 100)"
      by (simp add: withSortValues_scores calculateSortValues_value)
    then show ?thesis by (rule exI)
  qed
qed

lemma sortValue_NaN:
  assumes "f \<noteq> ''GREEN''" "f \<noteq> ''ANY''" "toLowerCase f \<in> set objectPrototypeNames"
  shows "sortValue (withSortValues lp f e) = NaN"
  using assms by (simp add: withSortValues_scores calculateSortValues_value)

lemma set_rankedEntries:
  "set (rankedEntries lp es a f r so) =
     withSortValues lp f ` {e \<in> set es. passesFilters r a e}"
  by (simp add: rankedEntries_def Let_def)

lemma rankedEntries_NaN:
  assumes "f \<noteq> ''GREEN''" "f \<noteq> ''ANY''" "toLowerCase f \<in> set objectPrototypeNames"
  shows "rankedEntries lp es a f r so = map (withSortValues lp f) (filter (passesFilters r a) es)"
  unfolding rankedEntries_def Let_def
  by (rule arraySort_ties) (auto simp: compare_NaN sortValue_NaN [OF assms])

lemma compareEntries_total:
  assumes "sortValue x = Num u" "sortValue y = Num v"
  shows "sortCompare (\<lambda>a b. compareEntries a b so f) x y \<le> 0
         \<or> sortCompare (\<lambda>a b. compareEntries a b so f) y x \<le> 0"
proof (cases "so = ''HIGH''")
  case True
  show ?thesis
    unfolding True compare_numbers_HIGH [OF assms] compare_numbers_HIGH [OF assms(2,1)]
    by auto
next
  case False
  show ?thesis
    unfolding compare_numbers_other [OF assms False] compare_numbers_other [OF assms(2,1) False]
    by auto
qed

lemma compareEntries_trans:
  assumes s: "sortValue x = Num u" "sortValue y = Num v" "sortValue z = Num w"
    and xy: "sortCompare (\<lambda>a b. compareEntries a b so f) x y \<le> 0"
    and yz: "sortCompare (\<lambda>a b. compareEntries a b so f) y z \<le> 0"
  shows "sortCompare (\<lambda>a b. compareEntries a b so f) x z \<le> 0"
proof (cases "so = ''HIGH''")
  case True
  from xy yz show ?thesis
    unfolding True compare_numbers_HIGH [OF s(1,2)] compare_numbers_HIGH [OF s(2,3)]
      compare_numbers_HIGH [OF s(1,3)]
    by auto
next
  case False
  from xy yz show ?thesis
    unfolding compare_numbers_other [OF s(1,2) False] compare_numbers_other [OF s(2,3) False]
      compare_numbers_other [OF s(1,3) False]
    by auto
qed

lemma sorted_ties:
  assumes "\<And>x y. x \<in> set xs \<Longrightarrow> y \<in> set xs \<Longrightarrow> P x y"
  shows "sorted_wrt P xs"
  using assms by (induction xs) auto

lemma sorted_rankedEntries:
  "sorted_wrt (\<lambda>x y. sortCompare (\<lambda>a b. compareEntries a b so f) x y \<le> 0)
     (rankedEntries lp es a f r so)"
proof (cases "f \<noteq> ''GREEN'' \<and> f \<noteq> ''ANY'' \<and> toLowerCase f \<in> set objectPrototypeNames")
  case True
  then have eq: "rankedEntries lp es a f r so
               = map (withSortValues lp f) (filter (passesFilters r a) es)"
    by (intro rankedEntries_NaN) simp_all
  have ties: "sortCompare (\<lambda>a b. compareEntries a b so f) (withSortValues lp f e1)
                   (withSortValues lp f e2) \<le> 0" for e1 e2
    using True by (simp add: compare_NaN sortValue_NaN)
  show ?thesis
    unfolding eq
  proof (rule sorted_ties)
    fix x y
    assume "x \<in> set (map (withSortValues lp f) (filter (passesFilters r a) es))"
      "y \<in> set (map (withSortValues lp f) (filter (passesFilters r a) es))"
    then obtain e1 e2 where "x = withSortValues lp f e1" "y = withSortValues lp f e2"
      by auto
    then show "sortCompare (\<lambda>a b. compareEntries a b so f) x y \<le> 0"
      by (simp only: ties)
  qed
next
  case False
  then have f: "f = ''GREEN'' \<or> f = ''ANY'' \<or> toLowerCase f \<notin> set objectPrototypeNames"
    by blast
  have numR: "\<exists>v. sortValue x = Num v" if "x \<in> range (withSortValues lp f)" for x
  proof -
    from that obtain e where "x = withSortValues lp f e" by (rule rangeE)
    with sortValue_number [OF f, of lp e] show ?thesis by simp
  qed
  have key: "sorted_wrt (\<lambda>x y. sortCompare (\<lambda>a b. compareEntries a b so f) x y \<le> 0)
          (arraySort (\<lambda>a b. compareEntries a b so f) xs)"
    if sub: "set xs \<subseteq> range (withSortValues lp f)" for xs
  proof (rule sorted_arraySort [where A = "range (withSortValues lp f)"])
    fix x y assume x: "x \<in> range (withSortValues lp f)" and y: "y \<in> range (withSortValues lp f)"
    from numR [OF x] obtain u where u: "sortValue x = Num u" ..
    from numR [OF y] obtain v where v: "sortValue y = Num v" ..
    from u v show "sortCompare (\<lambda>a b. compareEntries a b so f) x y \<le> 0
               \<or> sortCompare (\<lambda>a b. compareEntries a b so f) y x \<le> 0"
      by (rule compareEntries_total)
  next
    fix x y z
    assume x: "x \<in> range (withSortValues lp f)" and y: "y \<in> range (withSortValues lp f)"
      and z: "z \<in> range (withSortValues lp f)"
    from numR [OF x] obtain u where u: "sortValue x = Num u" ..
    from numR [OF y] obtain v where v: "sortValue y = Num v" ..
    from numR [OF z] obtain w where w: "sortValue z = Num w" ..
    assume "sortCompare (\<lambda>a b. compareEntries a b so f) x y \<le> 0"
      "sortCompare (\<lambda>a b. compareEntries a b so f) y z \<le> 0"
    with u v w show "sortCompare (\<lambda>a b. compareEntries a b so f) x z \<le> 0"
      by (rule compareEntries_trans)
  next
    show "set xs \<subseteq> range (withSortValues lp f)" by (rule sub)
  qed
  have "set (map (withSortValues lp f) (filter (passesFilters r a) es))
          \<subseteq> range (withSortValues lp f)"
    by auto
  then show ?thesis
    unfolding rankedEntries_def Let_def by (rule key)
qed

lemma regionMix_NSW:
  "regionMix ''NSW'' = [(''wind'', 12), (''solar'', 15), (''gas'', 25), (''coal'', 48)]"
  by (simp add: regionMix_def RegionPowerModel_data_def)

lemma regionMix_TAS:
  "regionMix ''TAS'' = [(''wind'', 60), (''solar'', 20), (''gas'', 10), (''coal'', 10)]"
  by (simp add: regionMix_def RegionPowerModel_data_def)

lemma share_NSW:
  "share (regionMix ''NSW'') ''solar'' = 15" "share (regionMix ''NSW'') ''wind'' = 12"
  "share (regionMix ''NSW'') ''hydro'' = 0" "greenShareFraction (regionMix ''NSW'') = 27 / 100"
  by (simp_all add: regionMix_NSW share_def greenShareFraction_def)

lemma green_TAS: "greenShareFraction (regionMix ''TAS'') = 80 / 100"
  by (simp add: regionMix_TAS share_def greenShareFraction_def)

lemma toLowerCase_examples:
  "toLowerCase ''Solar'' = ''solar''" "toLowerCase ''Hydro'' = ''hydro''"
  "toLowerCase ''constructor'' = ''constructor''" "toLowerCase ''Nuclear'' = ''nuclear''"
  by (simp_all add: toLowerCase_def toLowerCaseChar_def)

lemma example_names:
  "''solar'' \<notin> set objectPrototypeNames" "''hydro'' \<notin> set objectPrototypeNames"
  "''nuclear'' \<notin> set objectPrototypeNames" "''constructor'' \<in> set objectPrototypeNames"
  by (simp_all add: objectPrototypeNames_def)

lemma passes_all_any: "passesFilters ''ALL'' ''ANY'' e"
  by (simp add: passesFilters_def)

text \<open>
  Claim C5, at the failing input: under a filter other than \<open>GREEN\<close> and \<open>ANY\<close> the sort
  value is the percentage of the source of that name in the mix of the entry's region,
  as a fraction, and \<open>0\<close> when the region or the source is unmatched. No mix has a source
  \<open>constructor\<close>, yet with the filter \<open>constructor\<close> the read
  \<open>sources["constructor"]\<close> finds the function every object inherits, \<open>|| 0\<close> keeps it, and
  the division gives \<open>NaN\<close>, not \<open>0\<close>; the total power is the location power as claimed.
\<close>

theorem sort_value_inherited_name:
  "calculateSortValues serverLocationPower sydneyHome ''constructor'' = (NaN, 3000)
   \<and> toLowerCase ''constructor'' \<notin> fst ` set (regionMix (region sydneyHome))
   \<and> calculateSortValues serverLocationPower farAwayHome ''constructor'' = (NaN, 600)
   \<and> regionMix (region farAwayHome) = []"
  by (simp add: calculateSortValues_value toLowerCase_examples example_names example_regions
        regionMix_NSW serverLocationPower_sydneyHome serverLocationPower_farAwayHome)
     (simp add: regionMix_def RegionPowerModel_data_def)

text \<open>
  What holds of the score pair for every entry: under \<open>GREEN\<close> the sort value is the green
  share of the entry's region mix, \<open>(solar + wind + hydro) / 100\<close> with a missing component
  counted as \<open>0\<close>; under a filter other than \<open>GREEN\<close> and \<open>ANY\<close> whose name in lower case
  is not the name of an inherited property, it is the percentage of the source of that
  name divided by \<open>100\<close>, which is \<open>0\<close> when the region or the source is unmatched and lies
  between \<open>0\<close> and \<open>1\<close>; under \<open>ANY\<close> it is the location power. The total power is the
  location power in every case.
\<close>

lemma score_pair_by_filter:
  "calculateSortValues locationPower e ''GREEN''
     = (Num (greenShareFraction (regionMix (region e))), locationPower (appliances e))
   \<and> (f \<noteq> ''GREEN'' \<and> f \<noteq> ''ANY'' \<and> toLowerCase f \<notin> set objectPrototypeNames \<longrightarrow>
        calculateSortValues locationPower e f
          = (Num (share (regionMix (region e)) (toLowerCase f) / 100), locationPower (appliances e)))
   \<and> (f \<noteq> ''GREEN'' \<and> f \<noteq> ''ANY'' \<and> toLowerCase f \<in> set objectPrototypeNames \<longrightarrow>
        calculateSortValues locationPower e f = (NaN, locationPower (appliances e)))
   \<and> calculateSortValues locationPower e ''ANY''
     = (Num (locationPower (appliances e)), locationPower (appliances e))
   \<and> (region e \<notin> RegionPowerModel.name ` set RegionPowerModel_data \<longrightarrow>
        greenShareFraction (regionMix (region e)) = 0 \<and> share (regionMix (region e)) s = 0)
   \<and> (s \<notin> fst ` set (regionMix (region e)) \<longrightarrow> share (regionMix (region e)) s = 0)
   \<and> 0 \<le> share (regionMix (region e)) s / 100 \<and> share (regionMix (region e)) s / 100 \<le> 1
   \<and> 0 \<le> greenShareFraction (regionMix (region e))
   \<and> greenShareFraction (regionMix (region e)) \<le> 1
   \<and> snd (calculateSortValues locationPower e f) = locationPower (appliances e)"
proof (intro conjI impI)
  assume "region e \<notin> RegionPowerModel.name ` set RegionPowerModel_data"
  then show "greenShareFraction (regionMix (region e)) = 0" "share (regionMix (region e)) s = 0"
    by (simp_all add: regionMix_unknown share_def greenShareFraction_def)
next
  assume "s \<notin> fst ` set (regionMix (region e))"
  then show "share (regionMix (region e)) s = 0" by (rule share_missing)
next
  show "0 \<le> share (regionMix (region e)) s / 100" "share (regionMix (region e)) s / 100 \<le> 1"
    using share_bounds [of "region e" s] by simp_all
  show "0 \<le> greenShareFraction (regionMix (region e))"
    "greenShareFraction (regionMix (region e)) \<le> 1"
    using green_bounds [of "region e"] by simp_all
qed (simp_all add: calculateSortValues_value)


subsection \<open>Pages\<close>

lemma slice_page:
  assumes "0 \<le> s"
  shows "slice xs s (s + 16) = take 16 (drop (nat s) xs)"
proof (cases "s \<le> int (length xs)")
  case True
  with assms have "slice xs s (s + 16) = take (nat (min (s + 16) (int (length xs)) - s)) (drop (nat s) xs)"
    by (simp add: slice_def Let_def min_def)
  also have "\<dots> = take 16 (drop (nat s) xs)"
    using True assms by (auto simp: min_def intro!: take_all [THEN trans] take_all [symmetric])
  finally show ?thesis .
next
  case False
  with assms show ?thesis by (simp add: slice_def Let_def min_def)
qed

lemma length_rankedEntries:
  "length (rankedEntries lp es a f r so) = length (filter (passesFilters r a) es)"
  by (simp add: rankedEntries_def Let_def)

lemma pageCount_16: "pageCount n = max 1 \<lceil>real_of_int n / 16\<rceil>"
  by (simp add: pageCount_def PAGE_SIZE_def)

lemma pageCount_code:
  assumes "0 \<le> n"
  shows "(let c = \<lceil>real_of_int n / real_of_int PAGE_SIZE\<rceil> in if c = 0 then 1 else c)
           = pageCount n"
proof -
  define c where "c = \<lceil>real_of_int n / real_of_int PAGE_SIZE\<rceil>"
  have c16: "\<lceil>real_of_int n / 16\<rceil> = c"
    by (simp add: c_def PAGE_SIZE_def)
  from assms have "0 \<le> real_of_int n / 16" by simp
  then have "\<lceil>0::real\<rceil> \<le> \<lceil>real_of_int n / 16\<rceil>"
    by (rule ceiling_mono)
  then have "0 \<le> c"
    unfolding c16 by simp
  then have "(let c' = c in if c' = 0 then 1 else c') = max 1 c"
    by (simp add: Let_def max_def)
  then show ?thesis
    unfolding pageCount_def c_def .
qed

lemma getEntries_value:
  "getEntries lp (Some es) q =
     Inr \<lparr>entries = map sanitize
                      (take 16 (drop (nat ((max 1 (min (requestedPage q)
                                                     (pageCount (int (length (rankedFor lp es q))))) - 1) * 16))
                                     (rankedFor lp es q))),
          currentPage = max 1 (min (requestedPage q) (pageCount (int (length (rankedFor lp es q))))),
          totalPages = pageCount (int (length (rankedFor lp es q))),
          totalEntries = int (length (rankedFor lp es q))\<rparr>"
proof -
  define R where "R = rankedEntries lp es (paramOr (appType q) ''ANY'')
                        (paramOr (powerSource q) ''GREEN'') (paramOr (query.region q) ''ALL'')
                        (paramOr (sortOrder q) ''HIGH'')"
  define p where "p = (case page q of None \<Rightarrow> 1 | Some p \<Rightarrow> if p = 0 then 1 else p)"
  define pages where
    "pages = (let c = \<lceil>real_of_int (int (length R)) / real_of_int PAGE_SIZE\<rceil>
              in if c = 0 then 1 else c)"
  have R: "rankedFor lp es q = R"
    by (simp add: rankedFor_def requestFilters_def R_def)
  have p: "requestedPage q = p"
    by (simp add: requestedPage_def p_def)
  have pages: "pages = pageCount (int (length R))"
    unfolding pages_def by (rule pageCount_code) simp
  have code: "getEntries lp (Some es) q =
      Inr \<lparr>entries = map sanitize (slice R ((max 1 (min p pages) - 1) * PAGE_SIZE)
                                            ((max 1 (min p pages) - 1) * PAGE_SIZE + PAGE_SIZE)),
           currentPage = max 1 (min p pages), totalPages = pages,
           totalEntries = int (length R)\<rparr>"
    unfolding getEntries_def R_def p_def pages_def Let_def by (simp only: option.case)
  have "slice R ((max 1 (min p pages) - 1) * PAGE_SIZE)
                ((max 1 (min p pages) - 1) * PAGE_SIZE + PAGE_SIZE)
        = take 16 (drop (nat ((max 1 (min p pages) - 1) * 16)) R)"
    unfolding PAGE_SIZE_def by (rule slice_page) simp
  with code show ?thesis
    by (simp only: R p pages)
qed

lemma appliance_copy:
  "\<lparr>type = type app, hours = hours app, quantity = quantity app\<rparr> = (app :: ApplianceModel)"
  by (cases app) simp

lemma sanitize_withSortValues: "sanitize (withSortValues lp f e) = publicView e"
  by (simp add: sanitize_def withSortValues_def publicView_def Let_def appliance_copy)

lemma rankedEntries_entries:
  "rankedEntries lp es a f r so =
     map (withSortValues lp f) (arraySort (entryCompare lp f so) (filter (passesFilters r a) es))"
  unfolding rankedEntries_def Let_def
  by (rule arraySort_map) (simp add: entryCompare_def)

lemma sanitized_page:
  "map sanitize (take n (drop k (rankedEntries lp es a f r so))) =
     map publicView
       (take n (drop k (arraySort (entryCompare lp f so) (filter (passesFilters r a) es))))"
  by (simp add: rankedEntries_entries take_map drop_map sanitize_withSortValues comp_def)

lemma getEntries_None: "getEntries lp None q = Inl Status500"
  by (simp add: getEntries_def Let_def)

text \<open>
  Claim C7: \<open>getEntries\<close> on an available store always answers with a page, never with an
  error. \<open>totalEntries\<close> counts the entries that pass the filters, \<open>totalPages\<close> is
  \<open>ceil(totalEntries / PAGE_SIZE)\<close> and at least \<open>1\<close>, \<open>currentPage\<close> is the requested
  page clamped into \<open>[1, totalPages]\<close>, and the entries are the slice of that page. With
  33 entries there are 3 pages, page 99 gives page 3, and page 0, a negative page or no
  page gives page 1.
\<close>

theorem pagination_clamps:
  "case getEntries lp (Some es) q of
     Inl err \<Rightarrow> False
   | Inr res \<Rightarrow>
       totalEntries res =
         int (length (filter (passesFilters (paramOr (query.region q) ''ALL'')
                                            (paramOr (appType q) ''ANY'')) es))
       \<and> totalPages res = max 1 \<lceil>real_of_int (totalEntries res) / real_of_int PAGE_SIZE\<rceil>
       \<and> currentPage res = max 1 (min (requestedPage q) (totalPages res))
       \<and> 1 \<le> currentPage res \<and> currentPage res \<le> totalPages res
       \<and> entries res =
           map sanitize (take (nat PAGE_SIZE)
                          (drop (nat ((currentPage res - 1) * PAGE_SIZE)) (rankedFor lp es q)))
       \<and> (totalEntries res = 33 \<longrightarrow> totalPages res = 3)
       \<and> (totalEntries res = 33 \<and> page q = Some 99 \<longrightarrow> currentPage res = 3)
       \<and> (\<forall>p. page q = Some p \<and> p \<le> 0 \<longrightarrow> currentPage res = 1)
       \<and> (page q = None \<longrightarrow> currentPage res = 1)"
proof -
  define res where
    "res = \<lparr>entries = map sanitize
                      (take 16 (drop (nat ((max 1 (min (requestedPage q)
                                                     (pageCount (int (length (rankedFor lp es q))))) - 1) * 16))
                                     (rankedFor lp es q))),
          currentPage = max 1 (min (requestedPage q) (pageCount (int (length (rankedFor lp es q))))),
          totalPages = pageCount (int (length (rankedFor lp es q))),
          totalEntries = int (length (rankedFor lp es q))\<rparr>"
  have ge: "getEntries lp (Some es) q = Inr res"
    unfolding res_def by (rule getEntries_value)
  have te: "totalEntries res = int (length (rankedFor lp es q))"
    and tp: "totalPages res = pageCount (totalEntries res)"
    and cp: "currentPage res = max 1 (min (requestedPage q) (totalPages res))"
    and en: "entries res = map sanitize (take 16 (drop (nat ((currentPage res - 1) * 16))
                                                       (rankedFor lp es q)))"
    by (simp_all add: res_def)
  have one: "1 \<le> totalPages res"
    by (simp add: tp pageCount_16)
  have c1: "totalEntries res =
         int (length (filter (passesFilters (paramOr (query.region q) ''ALL'')
                                            (paramOr (appType q) ''ANY'')) es))"
    by (simp add: te rankedFor_def requestFilters_def length_rankedEntries)
  have c2: "totalPages res = max 1 \<lceil>real_of_int (totalEntries res) / real_of_int PAGE_SIZE\<rceil>"
    by (simp add: tp pageCount_16 PAGE_SIZE_def)
  have c4: "1 \<le> currentPage res" "currentPage res \<le> totalPages res"
    using one by (simp_all add: cp)
  have c5: "entries res =
           map sanitize (take (nat PAGE_SIZE)
                          (drop (nat ((currentPage res - 1) * PAGE_SIZE)) (rankedFor lp es q)))"
    by (simp add: en PAGE_SIZE_def)
  have c33: "\<lceil>(33::real) / 16\<rceil> = 3"
    by (simp add: ceiling_eq_iff)
  have c6: "totalEntries res = 33 \<longrightarrow> totalPages res = 3"
    using c33 by (simp add: tp pageCount_16)
  have c7: "totalEntries res = 33 \<and> page q = Some 99 \<longrightarrow> currentPage res = 3"
    using c6 by (simp add: cp requestedPage_def)
  have c8: "\<forall>p. page q = Some p \<and> p \<le> 0 \<longrightarrow> currentPage res = 1"
    using one by (auto simp: cp requestedPage_def)
  have c9: "page q = None \<longrightarrow> currentPage res = 1"
    using one by (simp add: cp requestedPage_def)
  show ?thesis
    unfolding ge sum.case
    using c1 c2 cp c4 c5 c6 c7 c8 c9 by (intro conjI)
qed

subsection \<open>The sanitized projection\<close>

lemma passesFilters_privateId [simp]:
  "passesFilters r a (e\<lparr>privateId := x\<rparr>) = passesFilters r a e"
  by (simp add: passesFilters_def)

lemma entryCompare_privateId [simp]:
  "entryCompare lp f so (e1\<lparr>privateId := x\<rparr>) (e2\<lparr>privateId := y\<rparr>) = entryCompare lp f so e1 e2"
  by (simp add: entryCompare_def compareEntries_def withSortValues_def calculateSortValues_def Let_def)

lemma publicView_privateId [simp]: "publicView (e\<lparr>privateId := x\<rparr>) = publicView e"
  by (simp add: publicView_def)

lemma rankedFor_length_privateId:
  "length (rankedFor lp (map (\<lambda>e. e\<lparr>privateId := newId e\<rparr>) es) q) = length (rankedFor lp es q)"
  by (simp add: rankedFor_def requestFilters_def length_rankedEntries filter_map comp_def)

lemma sanitized_page_privateId:
  "map sanitize (take n (drop k (rankedFor lp (map (\<lambda>e. e\<lparr>privateId := newId e\<rparr>) es) q))) =
   map sanitize (take n (drop k (rankedFor lp es q)))"
proof -
  obtain a f r so where rf: "requestFilters q = (a, f, r, so)"
    by (cases "requestFilters q") auto
  have "arraySort (entryCompare lp f so)
          (map (\<lambda>e. e\<lparr>privateId := newId e\<rparr>) (filter (passesFilters r a) es))
        = map (\<lambda>e. e\<lparr>privateId := newId e\<rparr>)
            (arraySort (entryCompare lp f so) (filter (passesFilters r a) es))"
    by (rule arraySort_map) simp
  then show ?thesis
    by (simp add: rankedFor_def rf sanitized_page filter_map comp_def take_map drop_map)
qed

text \<open>
  Claim C9: every entry of the answered page consists of exactly the address, region,
  appliances and public id of a store entry; the record of a sanitized entry has no other
  field. The answer does not depend on the private ids of the store: replacing them by
  any other values leaves it unchanged.
\<close>

theorem sanitized_projection:
  "(case getEntries lp (Some es) q of
      Inl err \<Rightarrow> False
    | Inr res \<Rightarrow>
        \<forall>s \<in> set (entries res).
          \<exists>e \<in> set es. s = \<lparr>address = address e, region = region e,
                              appliances = appliances e, publicId = publicId e\<rparr>)
   \<and> getEntries lp (Some (map (\<lambda>e. e\<lparr>privateId := newId e\<rparr>) es)) q = getEntries lp (Some es) q"
proof
  obtain a f r so where rf: "requestFilters q = (a, f, r, so)"
    by (cases "requestFilters q") auto
  show "case getEntries lp (Some es) q of
      Inl err \<Rightarrow> False
    | Inr res \<Rightarrow>
        \<forall>s \<in> set (entries res).
          \<exists>e \<in> set es. s = \<lparr>address = address e, region = region e,
                              appliances = appliances e, publicId = publicId e\<rparr>"
    unfolding getEntries_value sum.case
    by (auto simp: rankedFor_def rf sanitized_page publicView_def
             dest!: in_set_takeD in_set_dropD)
  show "getEntries lp (Some (map (\<lambda>e. e\<lparr>privateId := newId e\<rparr>) es)) q = getEntries lp (Some es) q"
    by (simp only: getEntries_value rankedFor_length_privateId sanitized_page_privateId)
qed

subsection \<open>Requests that read alike\<close>

lemma getEntries_params:
  assumes "requestFilters q = requestFilters q'" "page q = page q'"
  shows "getEntries lp d q = getEntries lp d q'"
proof (cases d)
  case None
  then show ?thesis by (simp add: getEntries_None)
next
  case (Some es)
  from assms have "rankedFor lp es q = rankedFor lp es q'" "requestedPage q = requestedPage q'"
    by (simp_all add: rankedFor_def requestedPage_def)
  with Some show ?thesis by (simp only: getEntries_value)
qed

subsection \<open>Worked examples of the leaderboard\<close>

lemma serverLocationPower_fridge80Home: "serverLocationPower (appliances fridge80Home) = 80"
  by (simp add: serverLocationPower_def getLocationPower_def getAppliancePower_def
        fridge80Home_def numberOr0_def ApplianceTypeModel_types_def fridgeType_def)

lemma serverLocationPower_fridge40Home: "serverLocationPower (appliances fridge40Home) = 40"
  by (simp add: serverLocationPower_def getLocationPower_def getAppliancePower_def
        fridge40Home_def numberOr0_def ApplianceTypeModel_types_def fridgeType_def)

lemma serverLocationPower_hobartHome: "serverLocationPower (appliances hobartHome) = 600"
  by (simp add: serverLocationPower_def getLocationPower_def getAppliancePower_def
        hobartHome_def numberOr0_def ApplianceTypeModel_types_def lampType_def)

lemma scores_fridge:
  "sortValue (withSortValues serverLocationPower ''Solar'' fridge80Home) = Num (15 / 100)"
  "sortValue (withSortValues serverLocationPower ''Solar'' fridge40Home) = Num (15 / 100)"
  "totalPower (withSortValues serverLocationPower ''Solar'' fridge80Home) = 80"
  "totalPower (withSortValues serverLocationPower ''Solar'' fridge40Home) = 40"
  by (simp_all add: withSortValues_scores calculateSortValues_value toLowerCase_examples
        example_names serverLocationPower_fridge80Home serverLocationPower_fridge40Home share_def)
     (simp_all add: fridge80Home_def fridge40Home_def regionMix_NSW)


theorem pagination_clamps_witness:
  "(case getEntries serverLocationPower (Some (replicate 33 sydneyHome))
           (noParameters\<lparr>page := Some 99\<rparr>) of
      Inl err \<Rightarrow> False
    | Inr res \<Rightarrow> totalEntries res = 33 \<and> totalPages res = 3 \<and> currentPage res = 3)
   \<and> (case getEntries serverLocationPower (Some (replicate 33 sydneyHome))
           (noParameters\<lparr>page := Some (- 2)\<rparr>) of
      Inl err \<Rightarrow> False
    | Inr res \<Rightarrow> totalEntries res = 33 \<and> totalPages res = 3 \<and> currentPage res = 1)
   \<and> (case getEntries serverLocationPower (Some []) noParameters of
      Inl err \<Rightarrow> False
    | Inr res \<Rightarrow> totalEntries res = 0 \<and> totalPages res = 1 \<and> currentPage res = 1)"
  using pagination_clamps [where lp = serverLocationPower and es = "replicate 33 sydneyHome"
          and q = "noParameters\<lparr>page := Some 99\<rparr>"]
        pagination_clamps [where lp = serverLocationPower and es = "replicate 33 sydneyHome"
          and q = "noParameters\<lparr>page := Some (- 2)\<rparr>"]
        pagination_clamps [where lp = serverLocationPower and es = "[]" and q = noParameters]
  by (simp add: noParameters_def paramOr_def passes_all_any split: sum.splits)

theorem sanitized_projection_witness:
  "getEntries serverLocationPower (Some [sydneyHome\<lparr>privateId := ''changed''\<rparr>]) noParameters
     = getEntries serverLocationPower (Some [sydneyHome]) noParameters
   \<and> (case getEntries serverLocationPower (Some [sydneyHome]) noParameters of
        Inl err \<Rightarrow> False
      | Inr res \<Rightarrow>
          \<forall>s \<in> set (entries res).
            s = \<lparr>address = ''1 George St'', region = ''NSW'',
                 appliances = [\<lparr>type = Some heaterType, hours = Num 2, quantity = Num 1\<rparr>],
                 publicId = ''pub-1''\<rparr>)"
  using sanitized_projection [where lp = serverLocationPower and es = "[sydneyHome]"
          and q = noParameters and newId = "\<lambda>e. ''changed''"]
  by (simp add: sydneyHome_def split: sum.splits)

subsection \<open>Parameter values outside the known ones\<close>

lemma getEntries_store:
  assumes "requestFilters q = (a, f, r, so)"
  shows "getEntries lp (Some es) q =
     Inr \<lparr>entries = map publicView
                      (take 16 (drop (nat ((max 1 (min (requestedPage q)
                                   (pageCount (int (length (filter (passesFilters r a) es))))) - 1) * 16))
                         (arraySort (entryCompare lp f so) (filter (passesFilters r a) es)))),
          currentPage = max 1 (min (requestedPage q)
                                   (pageCount (int (length (filter (passesFilters r a) es))))),
          totalPages = pageCount (int (length (filter (passesFilters r a) es))),
          totalEntries = int (length (filter (passesFilters r a) es))\<rparr>"
proof -
  have R: "rankedFor lp es q = rankedEntries lp es a f r so"
    by (simp add: rankedFor_def assms)
  show ?thesis
    by (simp only: getEntries_value R length_rankedEntries sanitized_page)
qed

lemma entryCompare_not_HIGH:
  "so \<noteq> ''HIGH'' \<Longrightarrow> entryCompare lp f so = entryCompare lp f ''LOW''"
  by (intro ext) (simp add: entryCompare_def compareEntries_def)

lemma share_unrecognized:
  assumes "\<forall>r \<in> set RegionPowerModel_data. s \<notin> fst ` set (powerSources r)"
  shows "share (regionMix code) s = 0"
proof -
  from regionMix_cases [of code] assms have "s \<notin> fst ` set (regionMix code)"
    by (force simp: image_iff)
  then show ?thesis by (rule share_missing)
qed

lemma entryCompare_unrecognized:
  assumes "p \<noteq> ''GREEN''" "p \<noteq> ''ANY''" "toLowerCase p \<notin> set objectPrototypeNames"
    and "\<forall>r \<in> set RegionPowerModel_data. toLowerCase p \<notin> fst ` set (powerSources r)"
  shows "entryCompare lp p so = entryCompare lp ''ANY'' so"
  using assms(1,2,3)
  by (intro ext)
     (simp add: entryCompare_def compareEntries_def withSortValues_scores numSubtract_def
        calculateSortValues_value share_unrecognized [OF assms(4)])

lemma getEntries_same_order:
  assumes "requestFilters q = (a, f, r, so)" "requestFilters q' = (a, f', r, so')"
    and "page q = page q'" "entryCompare lp f so = entryCompare lp f' so'"
  shows "getEntries lp d q = getEntries lp d q'"
proof (cases d)
  case None
  then show ?thesis by (simp add: getEntries_None)
next
  case (Some es)
  from assms(3) have "requestedPage q = requestedPage q'"
    by (simp add: requestedPage_def)
  with Some assms(4) show ?thesis
    by (simp only: getEntries_store [OF assms(1)] getEntries_store [OF assms(2)])
qed

lemma getEntries_no_match:
  assumes "requestFilters q = (a, f, r, so)" "\<forall>e \<in> set es. \<not> passesFilters r a e"
  shows "getEntries lp (Some es) q = Inr emptyPage"
proof -
  from assms(2) have "filter (passesFilters r a) es = []"
    by (simp add: filter_empty_conv)
  then show ?thesis
    by (simp add: getEntries_store [OF assms(1)] emptyPage_def pageCount_16)
qed

lemma passesFilters_region:
  "x \<noteq> ''ALL'' \<Longrightarrow> passesFilters x a e \<longleftrightarrow> region e = x \<and> passesFilters ''ALL'' a e"
  by (simp add: passesFilters_def)

lemma passesFilters_appType:
  "y \<noteq> ''ANY'' \<Longrightarrow>
   passesFilters r y e \<longleftrightarrow>
     passesFilters r ''ANY'' e
     \<and> (\<exists>app \<in> set (appliances e). \<exists>t. type app = Some t \<and> ApplianceTypeModel.name t = y)"
  by (auto simp: passesFilters_def list_ex_iff split: option.splits)

lemma example_compare:
  "entryCompare serverLocationPower ''GREEN'' ''HIGH'' sydneyHome hobartHome = Num (53 / 100)"
  "entryCompare serverLocationPower ''GREEN'' ''DOWN'' sydneyHome hobartHome = Num (- (53 / 100))"
  "entryCompare serverLocationPower ''ANY'' ''HIGH'' sydneyHome hobartHome = Num (- 2400)"
  "entryCompare serverLocationPower ''constructor'' ''HIGH'' sydneyHome hobartHome = NaN"
  "entryCompare serverLocationPower ''constructor'' ''HIGH'' hobartHome sydneyHome = NaN"
  "entryCompare serverLocationPower ''ANY'' ''HIGH'' hobartHome sydneyHome = Num 2400"
  by (simp_all add: entryCompare_def compareEntries_def withSortValues_scores numSubtract_def
        calculateSortValues_value example_regions share_NSW green_TAS toLowerCase_examples
        example_names serverLocationPower_sydneyHome serverLocationPower_hobartHome)

lemma example_publicView: "publicView sydneyHome \<noteq> publicView hobartHome"
  by (simp add: publicView_def sydneyHome_def hobartHome_def)

lemma example_high:
  "getEntries serverLocationPower (Some [sydneyHome, hobartHome])
     \<lparr>page = None, appType = None, powerSource = None, region = None, sortOrder = Some ''HIGH''\<rparr>
   = Inr \<lparr>entries = [publicView hobartHome, publicView sydneyHome],
          currentPage = 1, totalPages = 1, totalEntries = 2\<rparr>"
  by (simp add: getEntries_store [where a = "''ANY''" and f = "''GREEN''" and r = "''ALL''"
                  and so = "''HIGH''"]
        requestFilters_def paramOr_def passes_all_any requestedPage_def pageCount_16
        sortCompare_def example_compare)

lemma example_any:
  "getEntries serverLocationPower (Some [sydneyHome, hobartHome])
     \<lparr>page = None, appType = None, powerSource = Some ''ANY'', region = None, sortOrder = None\<rparr>
   = Inr \<lparr>entries = [publicView sydneyHome, publicView hobartHome],
          currentPage = 1, totalPages = 1, totalEntries = 2\<rparr>"
  by (simp add: getEntries_store [where a = "''ANY''" and f = "''ANY''" and r = "''ALL''"
                  and so = "''HIGH''"]
        requestFilters_def paramOr_def passes_all_any requestedPage_def pageCount_16
        sortCompare_def example_compare)

lemma example_down:
  "getEntries serverLocationPower (Some [sydneyHome, hobartHome])
     \<lparr>page = None, appType = None, powerSource = None, region = None, sortOrder = Some ''DOWN''\<rparr>
   = Inr \<lparr>entries = [publicView sydneyHome, publicView hobartHome],
          currentPage = 1, totalPages = 1, totalEntries = 2\<rparr>"
  by (simp add: getEntries_store [where a = "''ANY''" and f = "''GREEN''" and r = "''ALL''"
                  and so = "''DOWN''"]
        requestFilters_def paramOr_def passes_all_any requestedPage_def pageCount_16
        sortCompare_def example_compare)

lemma example_all:
  "getEntries serverLocationPower (Some [sydneyHome, hobartHome])
     \<lparr>page = None, appType = Some ''ANY'', powerSource = None, region = Some ''ALL'',
      sortOrder = None\<rparr>
   = Inr \<lparr>entries = [publicView hobartHome, publicView sydneyHome],
          currentPage = 1, totalPages = 1, totalEntries = 2\<rparr>"
  by (simp add: getEntries_store [where a = "''ANY''" and f = "''GREEN''" and r = "''ALL''"
                  and so = "''HIGH''"]
        requestFilters_def paramOr_def passes_all_any requestedPage_def pageCount_16
        sortCompare_def example_compare)

lemma example_region:
  "getEntries serverLocationPower (Some [sydneyHome, hobartHome])
     \<lparr>page = None, appType = Some ''ANY'', powerSource = None, region = Some ''XYZ'',
      sortOrder = None\<rparr>
   = Inr emptyPage"
  by (rule getEntries_no_match [where a = "''ANY''" and f = "''GREEN''" and r = "''XYZ''"
             and so = "''HIGH''"])
     (simp_all add: requestFilters_def paramOr_def passesFilters_def example_regions)

lemma example_appType:
  "getEntries serverLocationPower (Some [sydneyHome, hobartHome])
     \<lparr>page = None, appType = Some ''Kettle'', powerSource = None, region = Some ''ALL'',
      sortOrder = None\<rparr>
   = Inr emptyPage"
  by (rule getEntries_no_match [where a = "''Kettle''" and f = "''GREEN''" and r = "''ALL''"
             and so = "''HIGH''"])
     (simp_all add: requestFilters_def paramOr_def passesFilters_def sydneyHome_def hobartHome_def
        heaterType_def lampType_def)

subsection \<open>Defaults of the request\<close>

lemma paramOr_omitted: "omitted v \<Longrightarrow> paramOr v d = d"
  by (simp add: omitted_def paramOr_def split: option.splits)

lemma green_scores:
  assumes "x \<in> set (rankedEntries lp es a ''GREEN'' r so)"
  shows "sortValue x = Num (greenShareOf (sanitize x))" "totalPower x = lp (appliances (sanitize x))"
proof -
  from assms obtain e where x: "x = withSortValues lp ''GREEN'' e"
    unfolding set_rankedEntries by blast
  show "sortValue x = Num (greenShareOf (sanitize x))"
    by (simp add: x withSortValues_scores calculateSortValues_value greenShareOf_def
          sanitize_withSortValues publicView_def)
  show "totalPower x = lp (appliances (sanitize x))"
    by (simp add: x withSortValues_scores calculateSortValues_value
          sanitize_withSortValues publicView_def)
qed

lemma green_order:
  "sorted_wrt (\<lambda>x y. greenShareOf (sanitize y) \<le> greenShareOf (sanitize x)
                      \<and> (greenShareOf (sanitize x) = greenShareOf (sanitize y)
                           \<longrightarrow> lp (appliances (sanitize y)) \<le> lp (appliances (sanitize x))))
     (rankedEntries lp es a ''GREEN'' r ''HIGH'')"
proof (rule sorted_wrt_mono_rel [OF _ sorted_rankedEntries [of "''HIGH''" "''GREEN''" lp es a r]])
  fix x y
  assume x: "x \<in> set (rankedEntries lp es a ''GREEN'' r ''HIGH'')"
    and y: "y \<in> set (rankedEntries lp es a ''GREEN'' r ''HIGH'')"
    and le: "sortCompare (\<lambda>a b. compareEntries a b ''HIGH'' ''GREEN'') x y \<le> 0"
  from le show "greenShareOf (sanitize y) \<le> greenShareOf (sanitize x)
                \<and> (greenShareOf (sanitize x) = greenShareOf (sanitize y)
                     \<longrightarrow> lp (appliances (sanitize y)) \<le> lp (appliances (sanitize x)))"
    unfolding compare_numbers_HIGH [OF green_scores(1) [OF x] green_scores(1) [OF y]]
      green_scores(2) [OF x] green_scores(2) [OF y]
    by auto
qed

lemma green_page:
  assumes "requestFilters q = (a, ''GREEN'', r, ''HIGH'')"
  shows "case getEntries lp (Some es) q of
           Inl err \<Rightarrow> False
         | Inr res \<Rightarrow>
             sorted_wrt (\<lambda>s t. greenShareOf t \<le> greenShareOf s
                                \<and> (greenShareOf s = greenShareOf t
                                     \<longrightarrow> lp (appliances t) \<le> lp (appliances s)))
               (entries res)"
proof -
  have R: "rankedFor lp es q = rankedEntries lp es a ''GREEN'' r ''HIGH''"
    by (simp add: rankedFor_def assms)
  have "sorted_wrt (\<lambda>x y. greenShareOf (sanitize y) \<le> greenShareOf (sanitize x)
                      \<and> (greenShareOf (sanitize x) = greenShareOf (sanitize y)
                           \<longrightarrow> lp (appliances (sanitize y)) \<le> lp (appliances (sanitize x))))
          (take n (drop k (rankedEntries lp es a ''GREEN'' r ''HIGH'')))" for n k
    by (intro sorted_wrt_take sorted_wrt_drop green_order)
  then show ?thesis
    unfolding getEntries_value sum.case R
    by (simp add: sorted_wrt_map)
qed

lemma green_order_ascending:
  assumes "so \<noteq> ''HIGH''"
  shows "sorted_wrt (\<lambda>x y. greenShareOf (sanitize x) \<le> greenShareOf (sanitize y)
                      \<and> (greenShareOf (sanitize x) = greenShareOf (sanitize y)
                           \<longrightarrow> lp (appliances (sanitize x)) \<le> lp (appliances (sanitize y))))
     (rankedEntries lp es a ''GREEN'' r so)"
proof (rule sorted_wrt_mono_rel [OF _ sorted_rankedEntries [of so "''GREEN''" lp es a r]])
  fix x y
  assume x: "x \<in> set (rankedEntries lp es a ''GREEN'' r so)"
    and y: "y \<in> set (rankedEntries lp es a ''GREEN'' r so)"
    and le: "sortCompare (\<lambda>a b. compareEntries a b so ''GREEN'') x y \<le> 0"
  from le show "greenShareOf (sanitize x) \<le> greenShareOf (sanitize y)
                \<and> (greenShareOf (sanitize x) = greenShareOf (sanitize y)
                     \<longrightarrow> lp (appliances (sanitize x)) \<le> lp (appliances (sanitize y)))"
    unfolding compare_numbers_other [OF green_scores(1) [OF x] green_scores(1) [OF y] assms]
      green_scores(2) [OF x] green_scores(2) [OF y]
    by auto
qed

lemma green_page_ascending:
  assumes "requestFilters q = (a, ''GREEN'', r, so)" "so \<noteq> ''HIGH''"
  shows "case getEntries lp (Some es) q of
           Inl err \<Rightarrow> False
         | Inr res \<Rightarrow>
             sorted_wrt (\<lambda>s t. greenShareOf s \<le> greenShareOf t
                                \<and> (greenShareOf s = greenShareOf t
                                     \<longrightarrow> lp (appliances s) \<le> lp (appliances t)))
               (entries res)"
proof -
  have R: "rankedFor lp es q = rankedEntries lp es a ''GREEN'' r so"
    by (simp add: rankedFor_def assms(1))
  have "sorted_wrt (\<lambda>x y. greenShareOf (sanitize x) \<le> greenShareOf (sanitize y)
                      \<and> (greenShareOf (sanitize x) = greenShareOf (sanitize y)
                           \<longrightarrow> lp (appliances (sanitize x)) \<le> lp (appliances (sanitize y))))
          (take n (drop k (rankedEntries lp es a ''GREEN'' r so)))" for n k
    by (intro sorted_wrt_take sorted_wrt_drop green_order_ascending assms(2))
  then show ?thesis
    unfolding getEntries_value sum.case R
    by (simp add: sorted_wrt_map)
qed

lemma unfiltered_count:
  assumes "requestFilters q = (''ANY'', f, ''ALL'', so)"
  shows "case getEntries lp (Some es) q of
           Inl err \<Rightarrow> False
         | Inr res \<Rightarrow> totalEntries res = int (length es)"
  by (simp add: getEntries_store [OF assms] passes_all_any)

lemma whole_store:
  assumes "requestFilters q = (''ANY'', f, ''ALL'', so)" "length es \<le> 16"
  shows "case getEntries lp (Some es) q of
           Inl err \<Rightarrow> False
         | Inr res \<Rightarrow> mset (entries res) = mset (map publicView es)"
proof -
  have one: "pageCount (int (length es)) = 1"
  proof -
    from assms(2) have "real_of_int (int (length es)) / 16 \<le> 1" by simp
    then have "\<lceil>real_of_int (int (length es)) / 16\<rceil> \<le> 1" by (simp add: ceiling_le_iff)
    then show ?thesis by (simp add: pageCount_16)
  qed
  have "mset (take 16 (arraySort (entryCompare lp f so) es)) = mset es"
    using assms(2) by simp
  then have "mset (map publicView (take 16 (arraySort (entryCompare lp f so) es)))
               = mset (map publicView es)"
    by (simp only: mset_map)
  then show ?thesis
    by (simp add: getEntries_store [OF assms(1)] passes_all_any one)
qed

text \<open>
  Claim C10: an absent or empty power-source parameter is read as \<open>GREEN\<close>, an absent or
  empty appliance type as \<open>ANY\<close>, region as \<open>ALL\<close> and sort order as \<open>HIGH\<close>: the answer
  is that of the request that spells the default out. When the power source and the sort
  order are omitted, the entries of the answered page are in descending order of the green
  share of their region, entries of equal green share in descending order of their
  location power; when the power source is omitted and the sort order is another value
  than \<open>HIGH\<close>, they are in ascending order of the green share and, within equal green
  share, of the location power. When the appliance type and the region are omitted, no
  entry is filtered out: \<open>totalEntries\<close> is the size of the store, and a store of at most
  one page is answered whole.
\<close>

theorem absent_parameters_default:
  "getEntries lp d (q\<lparr>powerSource := None\<rparr>) = getEntries lp d (q\<lparr>powerSource := Some ''GREEN''\<rparr>)
   \<and> getEntries lp d (q\<lparr>powerSource := Some []\<rparr>) = getEntries lp d (q\<lparr>powerSource := Some ''GREEN''\<rparr>)
   \<and> getEntries lp d (q\<lparr>appType := None\<rparr>) = getEntries lp d (q\<lparr>appType := Some ''ANY''\<rparr>)
   \<and> getEntries lp d (q\<lparr>appType := Some []\<rparr>) = getEntries lp d (q\<lparr>appType := Some ''ANY''\<rparr>)
   \<and> getEntries lp d (q\<lparr>query.region := None\<rparr>) = getEntries lp d (q\<lparr>query.region := Some ''ALL''\<rparr>)
   \<and> getEntries lp d (q\<lparr>query.region := Some []\<rparr>) = getEntries lp d (q\<lparr>query.region := Some ''ALL''\<rparr>)
   \<and> getEntries lp d (q\<lparr>sortOrder := None\<rparr>) = getEntries lp d (q\<lparr>sortOrder := Some ''HIGH''\<rparr>)
   \<and> getEntries lp d (q\<lparr>sortOrder := Some []\<rparr>) = getEntries lp d (q\<lparr>sortOrder := Some ''HIGH''\<rparr>)
   \<and> (omitted (powerSource q) \<and> omitted (sortOrder q) \<longrightarrow>
        (case getEntries lp (Some es) q of
           Inl err \<Rightarrow> False
         | Inr res \<Rightarrow>
             sorted_wrt (\<lambda>s t. greenShareOf t \<le> greenShareOf s
                                \<and> (greenShareOf s = greenShareOf t
                                     \<longrightarrow> lp (appliances t) \<le> lp (appliances s)))
               (entries res)))
   \<and> (omitted (powerSource q) \<and> sortOrder q = Some so \<and> so \<noteq> [] \<and> so \<noteq> ''HIGH'' \<longrightarrow>
        (case getEntries lp (Some es) q of
           Inl err \<Rightarrow> False
         | Inr res \<Rightarrow>
             sorted_wrt (\<lambda>s t. greenShareOf s \<le> greenShareOf t
                                \<and> (greenShareOf s = greenShareOf t
                                     \<longrightarrow> lp (appliances s) \<le> lp (appliances t)))
               (entries res)))
   \<and> (omitted (appType q) \<and> omitted (query.region q) \<longrightarrow>
        (case getEntries lp (Some es) q of
           Inl err \<Rightarrow> False
         | Inr res \<Rightarrow>
             totalEntries res = int (length es)
             \<and> (length es \<le> 16 \<longrightarrow> mset (entries res) = mset (map publicView es))))"
proof (intro conjI impI)
  assume h: "omitted (powerSource q) \<and> sortOrder q = Some so \<and> so \<noteq> [] \<and> so \<noteq> ''HIGH''"
  show "case getEntries lp (Some es) q of
           Inl err \<Rightarrow> False
         | Inr res \<Rightarrow>
             sorted_wrt (\<lambda>s t. greenShareOf s \<le> greenShareOf t
                                \<and> (greenShareOf s = greenShareOf t
                                     \<longrightarrow> lp (appliances s) \<le> lp (appliances t)))
               (entries res)"
  proof (rule green_page_ascending)
    show "requestFilters q
            = (paramOr (appType q) ''ANY'', ''GREEN'', paramOr (query.region q) ''ALL'', so)"
      using h by (simp add: requestFilters_def paramOr_omitted) (simp add: paramOr_def)
    show "so \<noteq> ''HIGH''" using h by simp
  qed
next
  assume h: "omitted (powerSource q) \<and> omitted (sortOrder q)"
  show "case getEntries lp (Some es) q of
           Inl err \<Rightarrow> False
         | Inr res \<Rightarrow>
             sorted_wrt (\<lambda>s t. greenShareOf t \<le> greenShareOf s
                                \<and> (greenShareOf s = greenShareOf t
                                     \<longrightarrow> lp (appliances t) \<le> lp (appliances s)))
               (entries res)"
  proof (rule green_page)
    show "requestFilters q
            = (paramOr (appType q) ''ANY'', ''GREEN'', paramOr (query.region q) ''ALL'', ''HIGH'')"
      using h by (simp add: requestFilters_def paramOr_omitted)
  qed
next
  assume h: "omitted (appType q) \<and> omitted (query.region q)"
  have rf: "requestFilters q
              = (''ANY'', paramOr (powerSource q) ''GREEN'', ''ALL'', paramOr (sortOrder q) ''HIGH'')"
    using h by (simp add: requestFilters_def paramOr_omitted)
  show "case getEntries lp (Some es) q of
           Inl err \<Rightarrow> False
         | Inr res \<Rightarrow>
             totalEntries res = int (length es)
             \<and> (length es \<le> 16 \<longrightarrow> mset (entries res) = mset (map publicView es))"
    using unfiltered_count [OF rf, where lp = lp and es = es]
      whole_store [OF rf, where lp = lp and es = es]
    by (auto split: sum.splits)
qed (intro getEntries_params; simp add: requestFilters_def paramOr_def)+

lemma example_green:
  "greenShareOf (publicView hobartHome) = 80 / 100" "greenShareOf (publicView sydneyHome) = 27 / 100"
  by (simp_all add: greenShareOf_def publicView_def example_regions share_NSW green_TAS)

lemma omitted_None: "omitted None" "omitted (Some [])"
  by (simp_all add: omitted_def)

theorem absent_parameters_default_witness:
  "getEntries serverLocationPower (Some [sydneyHome, hobartHome]) noParameters
     = Inr \<lparr>entries = [publicView hobartHome, publicView sydneyHome],
            currentPage = 1, totalPages = 1, totalEntries = 2\<rparr>
   \<and> getEntries serverLocationPower (Some [sydneyHome, hobartHome])
       (noParameters\<lparr>powerSource := Some ''ANY''\<rparr>)
     = Inr \<lparr>entries = [publicView sydneyHome, publicView hobartHome],
            currentPage = 1, totalPages = 1, totalEntries = 2\<rparr>
   \<and> (case getEntries serverLocationPower (Some [sydneyHome, hobartHome]) noParameters of
         Inl err \<Rightarrow> False
       | Inr res \<Rightarrow>
           sorted_wrt (\<lambda>s t. greenShareOf t \<le> greenShareOf s
                              \<and> (greenShareOf s = greenShareOf t
                                   \<longrightarrow> serverLocationPower (appliances t)
                                         \<le> serverLocationPower (appliances s)))
             (entries res)
           \<and> totalEntries res = 2
           \<and> mset (entries res) = mset [publicView sydneyHome, publicView hobartHome])
   \<and> (case getEntries serverLocationPower (Some [sydneyHome, hobartHome])
              (noParameters\<lparr>sortOrder := Some ''LOW''\<rparr>) of
         Inl err \<Rightarrow> False
       | Inr res \<Rightarrow>
           sorted_wrt (\<lambda>s t. greenShareOf s \<le> greenShareOf t
                              \<and> (greenShareOf s = greenShareOf t
                                   \<longrightarrow> serverLocationPower (appliances s)
                                         \<le> serverLocationPower (appliances t)))
             (entries res))
   \<and> greenShareOf (publicView hobartHome) = 80 / 100
   \<and> greenShareOf (publicView sydneyHome) = 27 / 100"
proof -
  note inst = absent_parameters_default [where lp = serverLocationPower
      and d = "Some [sydneyHome, hobartHome]" and es = "[sydneyHome, hobartHome]"
      and q = noParameters]
  note low = absent_parameters_default [where lp = serverLocationPower
      and d = "Some [sydneyHome, hobartHome]" and es = "[sydneyHome, hobartHome]"
      and q = "noParameters\<lparr>sortOrder := Some ''LOW''\<rparr>" and so = "''LOW''"]
  have c1: "getEntries serverLocationPower (Some [sydneyHome, hobartHome]) noParameters
     = Inr \<lparr>entries = [publicView hobartHome, publicView sydneyHome],
            currentPage = 1, totalPages = 1, totalEntries = 2\<rparr>"
    using inst [THEN conjunct2, THEN conjunct2, THEN conjunct2, THEN conjunct2, THEN conjunct2,
                THEN conjunct2, THEN conjunct1] example_high
    by (simp add: noParameters_def)
  have c2: "getEntries serverLocationPower (Some [sydneyHome, hobartHome])
       (noParameters\<lparr>powerSource := Some ''ANY''\<rparr>)
     = Inr \<lparr>entries = [publicView sydneyHome, publicView hobartHome],
            currentPage = 1, totalPages = 1, totalEntries = 2\<rparr>"
    using example_any by (simp add: noParameters_def)
  have om: "omitted (powerSource noParameters)" "omitted (sortOrder noParameters)"
    "omitted (appType noParameters)" "omitted (query.region noParameters)"
    by (simp_all add: noParameters_def omitted_None)
  have c3: "case getEntries serverLocationPower (Some [sydneyHome, hobartHome]) noParameters of
         Inl err \<Rightarrow> False
       | Inr res \<Rightarrow>
           sorted_wrt (\<lambda>s t. greenShareOf t \<le> greenShareOf s
                              \<and> (greenShareOf s = greenShareOf t
                                   \<longrightarrow> serverLocationPower (appliances t)
                                         \<le> serverLocationPower (appliances s)))
             (entries res)
           \<and> totalEntries res = 2
           \<and> mset (entries res) = mset [publicView sydneyHome, publicView hobartHome]"
    using inst [THEN conjunct2, THEN conjunct2, THEN conjunct2, THEN conjunct2, THEN conjunct2,
                THEN conjunct2, THEN conjunct2, THEN conjunct2, THEN conjunct1]
          inst [THEN conjunct2, THEN conjunct2, THEN conjunct2, THEN conjunct2, THEN conjunct2,
                THEN conjunct2, THEN conjunct2, THEN conjunct2, THEN conjunct2, THEN conjunct2] om
    by (auto split: sum.splits)
  have oml: "omitted (powerSource (noParameters\<lparr>sortOrder := Some ''LOW''\<rparr>))"
    "sortOrder (noParameters\<lparr>sortOrder := Some ''LOW''\<rparr>) = Some ''LOW''"
    by (simp_all add: noParameters_def omitted_None)
  have c4: "case getEntries serverLocationPower (Some [sydneyHome, hobartHome])
              (noParameters\<lparr>sortOrder := Some ''LOW''\<rparr>) of
         Inl err \<Rightarrow> False
       | Inr res \<Rightarrow>
           sorted_wrt (\<lambda>s t. greenShareOf s \<le> greenShareOf t
                              \<and> (greenShareOf s = greenShareOf t
                                   \<longrightarrow> serverLocationPower (appliances s)
                                         \<le> serverLocationPower (appliances t)))
             (entries res)"
    using low [THEN conjunct2, THEN conjunct2, THEN conjunct2, THEN conjunct2, THEN conjunct2,
               THEN conjunct2, THEN conjunct2, THEN conjunct2, THEN conjunct2, THEN conjunct1]
          oml
    by simp
  show ?thesis
    using c1 c2 c3 c4 example_green by (intro conjI)
qed

text \<open>
  Claim C8, as stated: an unrecognized value of the appliance-type filter, the region
  filter or the sort direction gives the same result as the default \<open>ANY\<close>, \<open>ALL\<close> or
  \<open>HIGH\<close>. On a store with one entry in NSW and one in TAS, the region \<open>XYZ\<close> and the
  appliance type \<open>Kettle\<close> give an empty page where the defaults give both entries, and the
  sort direction \<open>DOWN\<close> gives the entries in the reverse of the order under \<open>HIGH\<close>.
\<close>

theorem unrecognized_parameters_counterexample:
  "getEntries serverLocationPower (Some [sydneyHome, hobartHome])
     \<lparr>page = None, appType = Some ''ANY'', powerSource = None, region = Some ''XYZ'',
      sortOrder = None\<rparr>
   \<noteq> getEntries serverLocationPower (Some [sydneyHome, hobartHome])
     \<lparr>page = None, appType = Some ''ANY'', powerSource = None, region = Some ''ALL'',
      sortOrder = None\<rparr>
   \<and> getEntries serverLocationPower (Some [sydneyHome, hobartHome])
     \<lparr>page = None, appType = Some ''Kettle'', powerSource = None, region = Some ''ALL'',
      sortOrder = None\<rparr>
   \<noteq> getEntries serverLocationPower (Some [sydneyHome, hobartHome])
     \<lparr>page = None, appType = Some ''ANY'', powerSource = None, region = Some ''ALL'',
      sortOrder = None\<rparr>
   \<and> getEntries serverLocationPower (Some [sydneyHome, hobartHome])
     \<lparr>page = None, appType = None, powerSource = None, region = None, sortOrder = Some ''DOWN''\<rparr>
   \<noteq> getEntries serverLocationPower (Some [sydneyHome, hobartHome])
     \<lparr>page = None, appType = None, powerSource = None, region = None, sortOrder = Some ''HIGH''\<rparr>"
  unfolding example_high example_down example_all example_region example_appType
  using example_publicView by (simp add: emptyPage_def)

text \<open>
  Claim C8, amended: no parameter value is rejected: \<open>getEntries\<close> answers with a page
  whenever the store is available. A value outside the known ones is not replaced by a
  default. A sort direction other than \<open>HIGH\<close> sorts as \<open>LOW\<close> does. A power-source name
  that no region's mix contains, and that is not the name of a property that objects
  inherit, gives every entry the sort value \<open>0\<close>, so that the order is by total power and
  the result is that of \<open>ANY\<close>. A region and an appliance type are compared literally
  with the entries: the filter keeps the entries that carry the value, and a value no
  entry carries gives the empty page (no entries, page 1 of 1).
\<close>

theorem unrecognized_parameters_literal:
  "(\<exists>res. getEntries lp (Some es) q = Inr res)
   \<and> (so \<noteq> [] \<and> so \<noteq> ''HIGH'' \<longrightarrow>
        getEntries lp d (q\<lparr>sortOrder := Some so\<rparr>) = getEntries lp d (q\<lparr>sortOrder := Some ''LOW''\<rparr>))
   \<and> (p \<noteq> [] \<and> p \<noteq> ''GREEN'' \<and> p \<noteq> ''ANY''
        \<and> toLowerCase p \<notin> set objectPrototypeNames
        \<and> (\<forall>r \<in> set RegionPowerModel_data. toLowerCase p \<notin> fst ` set (powerSources r)) \<longrightarrow>
        getEntries lp d (q\<lparr>powerSource := Some p\<rparr>) = getEntries lp d (q\<lparr>powerSource := Some ''ANY''\<rparr>))
   \<and> (x \<noteq> [] \<and> x \<noteq> ''ALL'' \<longrightarrow>
        (passesFilters x a e \<longleftrightarrow> region e = x \<and> passesFilters ''ALL'' a e))
   \<and> (x \<noteq> [] \<and> x \<noteq> ''ALL'' \<and> (\<forall>e \<in> set es. region e \<noteq> x) \<longrightarrow>
        getEntries lp (Some es) (q\<lparr>query.region := Some x\<rparr>) = Inr emptyPage)
   \<and> (y \<noteq> [] \<and> y \<noteq> ''ANY'' \<longrightarrow>
        (passesFilters r y e \<longleftrightarrow>
           passesFilters r ''ANY'' e
           \<and> (\<exists>app \<in> set (appliances e). \<exists>t. type app = Some t \<and> ApplianceTypeModel.name t = y)))
   \<and> (y \<noteq> [] \<and> y \<noteq> ''ANY''
        \<and> (\<forall>e \<in> set es. \<forall>app \<in> set (appliances e). \<forall>t. type app = Some t \<longrightarrow> ApplianceTypeModel.name t \<noteq> y) \<longrightarrow>
        getEntries lp (Some es) (q\<lparr>appType := Some y\<rparr>) = Inr emptyPage)"
proof (intro conjI impI)
  show "\<exists>res. getEntries lp (Some es) q = Inr res"
    by (rule exI, rule getEntries_value)
next
  assume h: "so \<noteq> [] \<and> so \<noteq> ''HIGH''"
  show "getEntries lp d (q\<lparr>sortOrder := Some so\<rparr>) = getEntries lp d (q\<lparr>sortOrder := Some ''LOW''\<rparr>)"
  proof (rule getEntries_same_order)
    show "requestFilters (q\<lparr>sortOrder := Some so\<rparr>)
            = (paramOr (appType q) ''ANY'', paramOr (powerSource q) ''GREEN'',
               paramOr (query.region q) ''ALL'', so)"
      using h by (simp add: requestFilters_def paramOr_def)
    show "requestFilters (q\<lparr>sortOrder := Some ''LOW''\<rparr>)
            = (paramOr (appType q) ''ANY'', paramOr (powerSource q) ''GREEN'',
               paramOr (query.region q) ''ALL'', ''LOW'')"
      by (simp add: requestFilters_def paramOr_def)
    show "entryCompare lp (paramOr (powerSource q) ''GREEN'') so
            = entryCompare lp (paramOr (powerSource q) ''GREEN'') ''LOW''"
      using h by (intro entryCompare_not_HIGH) simp
  qed simp
next
  assume h: "p \<noteq> [] \<and> p \<noteq> ''GREEN'' \<and> p \<noteq> ''ANY''
        \<and> toLowerCase p \<notin> set objectPrototypeNames
        \<and> (\<forall>r \<in> set RegionPowerModel_data. toLowerCase p \<notin> fst ` set (powerSources r))"
  show "getEntries lp d (q\<lparr>powerSource := Some p\<rparr>) = getEntries lp d (q\<lparr>powerSource := Some ''ANY''\<rparr>)"
  proof (rule getEntries_same_order)
    show "requestFilters (q\<lparr>powerSource := Some p\<rparr>)
            = (paramOr (appType q) ''ANY'', p, paramOr (query.region q) ''ALL'',
               paramOr (sortOrder q) ''HIGH'')"
      using h by (simp add: requestFilters_def paramOr_def)
    show "requestFilters (q\<lparr>powerSource := Some ''ANY''\<rparr>)
            = (paramOr (appType q) ''ANY'', ''ANY'', paramOr (query.region q) ''ALL'',
               paramOr (sortOrder q) ''HIGH'')"
      by (simp add: requestFilters_def paramOr_def)
    show "entryCompare lp p (paramOr (sortOrder q) ''HIGH'')
            = entryCompare lp ''ANY'' (paramOr (sortOrder q) ''HIGH'')"
      using h by (intro entryCompare_unrecognized) simp_all
  qed simp
next
  assume "x \<noteq> [] \<and> x \<noteq> ''ALL''"
  then show "passesFilters x a e \<longleftrightarrow> region e = x \<and> passesFilters ''ALL'' a e"
    by (simp add: passesFilters_region)
next
  assume h: "x \<noteq> [] \<and> x \<noteq> ''ALL'' \<and> (\<forall>e \<in> set es. region e \<noteq> x)"
  show "getEntries lp (Some es) (q\<lparr>query.region := Some x\<rparr>) = Inr emptyPage"
  proof (rule getEntries_no_match)
    show "requestFilters (q\<lparr>query.region := Some x\<rparr>)
            = (paramOr (appType q) ''ANY'', paramOr (powerSource q) ''GREEN'', x,
               paramOr (sortOrder q) ''HIGH'')"
      using h by (simp add: requestFilters_def paramOr_def)
    show "\<forall>e \<in> set es. \<not> passesFilters x (paramOr (appType q) ''ANY'') e"
      using h by (simp add: passesFilters_region)
  qed
next
  assume "y \<noteq> [] \<and> y \<noteq> ''ANY''"
  then show "passesFilters r y e \<longleftrightarrow>
           passesFilters r ''ANY'' e
           \<and> (\<exists>app \<in> set (appliances e). \<exists>t. type app = Some t \<and> ApplianceTypeModel.name t = y)"
    by (simp add: passesFilters_appType)
next
  assume h: "y \<noteq> [] \<and> y \<noteq> ''ANY''
        \<and> (\<forall>e \<in> set es. \<forall>app \<in> set (appliances e). \<forall>t. type app = Some t \<longrightarrow> ApplianceTypeModel.name t \<noteq> y)"
  show "getEntries lp (Some es) (q\<lparr>appType := Some y\<rparr>) = Inr emptyPage"
  proof (rule getEntries_no_match)
    show "requestFilters (q\<lparr>appType := Some y\<rparr>)
            = (y, paramOr (powerSource q) ''GREEN'', paramOr (query.region q) ''ALL'',
               paramOr (sortOrder q) ''HIGH'')"
      using h by (simp add: requestFilters_def paramOr_def)
    show "\<forall>e \<in> set es. \<not> passesFilters (paramOr (query.region q) ''ALL'') y e"
      using h by (auto simp: passesFilters_appType)
  qed
qed

theorem unrecognized_parameters_literal_witness:
  "getEntries serverLocationPower (Some [sydneyHome, hobartHome])
     (noParameters\<lparr>sortOrder := Some ''DOWN''\<rparr>)
   = getEntries serverLocationPower (Some [sydneyHome, hobartHome])
     (noParameters\<lparr>sortOrder := Some ''LOW''\<rparr>)
   \<and> getEntries serverLocationPower (Some [sydneyHome, hobartHome])
     (noParameters\<lparr>powerSource := Some ''Nuclear''\<rparr>)
   = getEntries serverLocationPower (Some [sydneyHome, hobartHome])
     (noParameters\<lparr>powerSource := Some ''ANY''\<rparr>)
   \<and> getEntries serverLocationPower (Some [sydneyHome, hobartHome])
     (noParameters\<lparr>query.region := Some ''XYZ''\<rparr>) = Inr emptyPage
   \<and> getEntries serverLocationPower (Some [sydneyHome, hobartHome])
     (noParameters\<lparr>appType := Some ''Kettle''\<rparr>) = Inr emptyPage
   \<and> toLowerCase ''Nuclear''
       \<notin> set (concat (map (\<lambda>r. map fst (powerSources r)) RegionPowerModel_data))
   \<and> toLowerCase ''Nuclear'' \<notin> set objectPrototypeNames"
proof -
  have nuclear: "\<forall>r \<in> set RegionPowerModel_data. toLowerCase ''Nuclear'' \<notin> fst ` set (powerSources r)"
    by (simp add: RegionPowerModel_data_def toLowerCase_def toLowerCaseChar_def)
  have plain: "toLowerCase ''Nuclear'' \<notin> set objectPrototypeNames"
    by (simp add: toLowerCase_examples example_names)
  have regions: "\<forall>e \<in> set [sydneyHome, hobartHome]. region e \<noteq> ''XYZ''"
    by (simp add: example_regions)
  have kettle: "\<forall>e \<in> set [sydneyHome, hobartHome]. \<forall>app \<in> set (appliances e).
                  \<forall>t. type app = Some t \<longrightarrow> ApplianceTypeModel.name t \<noteq> ''Kettle''"
    by (simp add: sydneyHome_def hobartHome_def heaterType_def lampType_def)
  note inst = unrecognized_parameters_literal [where lp = serverLocationPower and es = "[sydneyHome, hobartHome]"
      and d = "Some [sydneyHome, hobartHome]" and q = noParameters and so = "''DOWN''"
      and p = "''Nuclear''" and x = "''XYZ''" and y = "''Kettle''" and a = "''ANY''"
      and r = "''ALL''" and e = sydneyHome]
  have c2: "getEntries serverLocationPower (Some [sydneyHome, hobartHome])
              (noParameters\<lparr>sortOrder := Some ''DOWN''\<rparr>)
            = getEntries serverLocationPower (Some [sydneyHome, hobartHome])
              (noParameters\<lparr>sortOrder := Some ''LOW''\<rparr>)"
    using inst [THEN conjunct2, THEN conjunct1] by simp
  have c3: "getEntries serverLocationPower (Some [sydneyHome, hobartHome])
              (noParameters\<lparr>powerSource := Some ''Nuclear''\<rparr>)
            = getEntries serverLocationPower (Some [sydneyHome, hobartHome])
              (noParameters\<lparr>powerSource := Some ''ANY''\<rparr>)"
    using inst [THEN conjunct2, THEN conjunct2, THEN conjunct1] nuclear plain by simp
  have c5: "getEntries serverLocationPower (Some [sydneyHome, hobartHome])
              (noParameters\<lparr>query.region := Some ''XYZ''\<rparr>) = Inr emptyPage"
    using inst [THEN conjunct2, THEN conjunct2, THEN conjunct2, THEN conjunct2, THEN conjunct1]
      regions by simp
  have c7: "getEntries serverLocationPower (Some [sydneyHome, hobartHome])
              (noParameters\<lparr>appType := Some ''Kettle''\<rparr>) = Inr emptyPage"
    using inst [THEN conjunct2, THEN conjunct2, THEN conjunct2, THEN conjunct2, THEN conjunct2,
                THEN conjunct2] kettle by simp
  have c8: "toLowerCase ''Nuclear''
              \<notin> set (concat (map (\<lambda>r. map fst (powerSources r)) RegionPowerModel_data))"
    using nuclear by auto
  show ?thesis
    using c2 c3 c5 c7 c8 plain by (intro conjI)
qed

end
